theory Spec2Isabelle
  imports Complex_Main "HOL-Library.AList"
begin

section \<open>Strings and text files\<close>

text \<open>
  A Python \<open>str\<close> is a \<open>string\<close> whose characters are the code points below 256.
  \<open>isspace\<close> is \<open>str.isspace\<close> on those code points, \<open>str_lower\<close> is \<open>str.lower\<close>,
  \<open>str_rstrip\<close> is \<open>str.rstrip()\<close> and \<open>str_split sep\<close> is \<open>str.split(sep)\<close>.
\<close>

definition isspace :: "char \<Rightarrow> bool" where
  "isspace c \<longleftrightarrow> (of_char c :: nat) \<in> {9, 10, 11, 12, 13, 28, 29, 30, 31, 32, 133, 160}"

definition lower_char :: "char \<Rightarrow> char" where
  "lower_char c =
     (let n = (of_char c :: nat)
      in if (65 \<le> n \<and> n \<le> 90) \<or> (192 \<le> n \<and> n \<le> 222 \<and> n \<noteq> 215)
         then char_of (n + 32) else c)"

definition str_lower :: "string \<Rightarrow> string" where
  "str_lower s = map lower_char s"

definition str_rstrip :: "string \<Rightarrow> string" where
  "str_rstrip s = rev (dropWhile isspace (rev s))"

fun str_split :: "char \<Rightarrow> string \<Rightarrow> string list" where
  "str_split sep [] = [[]]"
| "str_split sep (c # cs) =
     (if c = sep then [] # str_split sep cs
      else (case str_split sep cs of w # ws \<Rightarrow> (c # w) # ws | [] \<Rightarrow> [[c]]))"

text \<open>
  An open text file is the text that is still unread. \<open>readline\<close> returns the next line
  with its newline character, and the rest of the file; at the end of the file the line
  is empty.
\<close>

fun readline :: "string \<Rightarrow> string \<times> string" where
  "readline [] = ([], [])"
| "readline (c # cs) =
     (if c = CHR 0x0A then ([c], cs)
      else (case readline cs of (l, r) \<Rightarrow> (c # l, r)))"


section \<open>Exceptions and printed messages\<close>

text \<open>
  An exception is its Python class applied to what the message is built from. The
  messages of \<open>ValueError\<close> and \<open>RuntimeError\<close> name the place that raises them.
\<close>

datatype value_error =
    Column_mismatch string string       \<comment> \<open>"Error: Column name %s does not match %s"\<close>
  | Statistic_not_found string          \<comment> \<open>"Error: Statistic %s not found in data inputs."\<close>
  | State_not_found string              \<comment> \<open>"State %s not found in location data. "\<close>
  | County_not_found string string      \<comment> \<open>"County %s not found in state %s"\<close>
  | Distance_too_large                  \<comment> \<open>"Distance must be < 1000 [miles]."\<close>
  | Invalid_int string                  \<comment> \<open>raised by \<open>int(s)\<close>\<close>
  | Invalid_float string                \<comment> \<open>raised by \<open>float(s)\<close>\<close>
  | Invalid_date int int int            \<comment> \<open>raised by \<open>date(y, m, d)\<close>\<close>
  | Unpack nat                          \<comment> \<open>raised by unpacking a list of that length into three names\<close>
  | Math_domain                         \<comment> \<open>raised by the \<open>math\<close> module\<close>

datatype runtime_error =
    Counties_file_not_found string      \<comment> \<open>"Error: Counties data file %s not found."\<close>
  | Geocodes_file_not_found string      \<comment> \<open>"Error: Geocodes data file %s not found."\<close>
  | Input_file_missing string           \<comment> \<open>"Input file does not exist: %s"\<close>
  | Invalid_input value_error           \<comment> \<open>"Invalid input data: %s"\<close>

datatype error =
    RuntimeError runtime_error
  | ValueError value_error
  | KeyError string
  | IndexError
  | FileNotFoundError string
  | OverflowError
  | TypeError

text \<open>Python's \<open>LookupError\<close> is the base class of \<open>KeyError\<close> and \<open>IndexError\<close> only.\<close>

fun is_LookupError :: "error \<Rightarrow> bool" where
  "is_LookupError (KeyError k) = True"
| "is_LookupError IndexError = True"
| "is_LookupError e = False"

text \<open>
  A Python \<open>float\<close> is a real number, an infinity or NaN. Its value and its comparisons
  are exact; what rounds (\<open>float(s)\<close> and the arithmetic of \<open>haversine.py\<close>) is left to
  the environment below.
\<close>

datatype pyfloat = Fin real | PInf | MInf | NaN

fun float_lt :: "pyfloat \<Rightarrow> pyfloat \<Rightarrow> bool" where
  "float_lt NaN y = False"
| "float_lt x NaN = False"
| "float_lt (Fin x) (Fin y) = (x < y)"
| "float_lt x MInf = False"
| "float_lt MInf y = True"
| "float_lt PInf y = False"
| "float_lt x PInf = True"

definition float_gt :: "pyfloat \<Rightarrow> pyfloat \<Rightarrow> bool" where
  "float_gt x y = float_lt y x"

definition float_le :: "pyfloat \<Rightarrow> pyfloat \<Rightarrow> bool" where
  "float_le x y \<longleftrightarrow> float_lt x y \<or> (x \<noteq> NaN \<and> x = y)"

datatype out =
    Incomplete_data nat                 \<comment> \<open>"Warning: Incomplete data for line #%d"\<close>
  | Skipping_line string                \<comment> \<open>"Skipping line: %s"\<close>
  | Already_loaded string string        \<comment> \<open>"Warning: Data for %s/%s already loaded."\<close>
  | Replacing_with string               \<comment> \<open>"Replacing with data for date: %s"\<close>
  | Finding string pyfloat string string
      \<comment> \<open>"Finding number of %s within %.2f [mi] for %s %s"\<close>
  | Dist_between string string string string pyfloat
      \<comment> \<open>"Dist between %s/%s in and %s/%s is %.2f [miles]"\<close>
  | Adding int int string string        \<comment> \<open>"Adding %d cases to %d from %s/%s"\<close>
  | In_total int string pyfloat string string int
      \<comment> \<open>"In total there are %d %s within %.2f [miles] of %s/%s, a region with %d people."\<close>


section \<open>The data model\<close>

text \<open>
  A \<open>dict\<close> is an association list in insertion order: \<open>map_of d k\<close> is the lookup
  \<open>d[k]\<close> (\<open>None\<close> where Python raises \<open>KeyError\<close>) and \<open>AList.update k v d\<close> is the
  store \<open>d[k] = v\<close>, which keeps the place of a key that is there and appends a new one.
\<close>

type_synonym ('k, 'v) dict = "('k \<times> 'v) list"

datatype val = VStr string | VInt int

text \<open>A county of \<open>covid_dict\<close>: \<open>'fips'\<close> and one entry for each statistic.\<close>

type_synonym covid_record = "(string, val) dict"

text \<open>A county of \<open>geo_dict\<close>: the four keys every entry is created with.\<close>

record geo_record =
  lat :: pyfloat
  lon :: pyfloat
  population :: int
  largest_city :: int

text \<open>
  \<open>covid_dict\<close> and \<open>geo_dict\<close> are attributes of the class \<open>CovidData\<close>, not of its
  instances; with the standard output they are the state every operation passes on.
\<close>

record world =
  covid_dict :: "(string, (string, covid_record) dict) dict"
  geo_dict :: "(string, (string, geo_record) dict) dict"
  stdout :: "out list"

type_synonym date = "int \<times> int \<times> int"

text \<open>The attributes \<open>__init__\<close> gives an instance.\<close>

record covid_data =
  counties_path :: string
  geocodes_path :: string
  target_date :: "date option"
  stat_names :: "string list"

record request =
  state :: string
  county :: string
  distance :: pyfloat

record result =
  res_state :: string
  res_county :: string
  res_fips :: "val list"
  res_counties :: "(string \<times> string) list"
  res_stat :: string
  res_population :: int
  res_stat_total :: int
  res_cords :: "pyfloat \<times> pyfloat"

text \<open>
  What the program uses and \<open>data_functions.py\<close> and \<open>run.py\<close> do not define: the files
  on disk (\<open>files e p = None\<close>: no file at \<open>p\<close>), the builtins \<open>int\<close> and \<open>float\<close> on
  strings (\<open>None\<close>: \<open>ValueError\<close>), the table \<open>us_state_abbrev\<close> of the module
  \<open>src.us_states\<close>, and the floating-point function \<open>haversine\<close> (\<open>None\<close>: the
  \<open>ValueError\<close> of \<open>math.sin\<close>, \<open>math.cos\<close> and \<open>math.sqrt\<close> outside their domain).
\<close>

record env =
  files :: "string \<rightharpoonup> string"
  py_int :: "string \<Rightarrow> int option"
  py_float :: "string \<Rightarrow> pyfloat option"
  us_state_abbrev :: "string \<rightharpoonup> string"
  haversine :: "pyfloat \<times> pyfloat \<Rightarrow> pyfloat \<times> pyfloat \<Rightarrow> pyfloat option"

definition print :: "out list \<Rightarrow> world \<Rightarrow> world" where
  "print msgs w = w\<lparr>stdout := stdout w @ msgs\<rparr>"

text \<open>\<open>datetime.date(y, m, d)\<close>, with the range checks of its constructor.\<close>

definition is_leap :: "int \<Rightarrow> bool" where
  "is_leap y \<longleftrightarrow> y mod 4 = 0 \<and> (y mod 100 \<noteq> 0 \<or> y mod 400 = 0)"

definition days_in_month :: "int \<Rightarrow> int \<Rightarrow> int" where
  "days_in_month y m =
     (if m = 2 then (if is_leap y then 29 else 28)
      else if m = 4 \<or> m = 6 \<or> m = 9 \<or> m = 11 then 30 else 31)"

definition c_int :: "int \<Rightarrow> bool" where
  "c_int n \<longleftrightarrow> - (2 ^ 31) \<le> n \<and> n < 2 ^ 31"

definition py_date :: "int \<Rightarrow> int \<Rightarrow> int \<Rightarrow> error + date" where
  "py_date y m d =
     (if \<not> (c_int y \<and> c_int m \<and> c_int d) then Inl OverflowError
      else if 1 \<le> y \<and> y \<le> 9999 \<and> 1 \<le> m \<and> m \<le> 12 \<and> 1 \<le> d \<and> d \<le> days_in_month y m
      then Inr (y, m, d)
      else Inl (ValueError (Invalid_date y m d)))"


section \<open>data_functions.py: class CovidData\<close>

definition counties_data_types :: "string list" where
  "counties_data_types = [''date'', ''county'', ''state'', ''fips'']"

definition num_fixed_types :: nat where
  "num_fixed_types = length counties_data_types"

definition geo_data_types :: "string list" where
  "geo_data_types = [''zip'', ''primary_city'', ''state'', ''latitude'', ''longitude'',
     ''county'', ''type'', ''world_region'', ''country'', ''decommissioned'',
     ''estimated_population'', ''notes'']"

subsection \<open>validate_header\<close>

text \<open>
  The loop \<open>for i in range(self.num_fixed_types)\<close>; \<open>data_types[i]\<close> raises
  \<open>IndexError\<close> when the header has no column \<open>i\<close>.
\<close>

fun header_loop :: "string list \<Rightarrow> nat list \<Rightarrow> error option" where
  "header_loop data_types [] = None"
| "header_loop data_types (i # rest) =
     (if length data_types \<le> i then Some IndexError
      else if str_lower (data_types ! i) \<noteq> counties_data_types ! i
      then Some (ValueError (Column_mismatch (data_types ! i) (counties_data_types ! i)))
      else header_loop data_types rest)"

definition validate_header :: "string \<Rightarrow> error + string list" where
  "validate_header header =
     (let data_types = str_split CHR '','' (str_rstrip header)
      in case header_loop data_types [0..<num_fixed_types] of
           Some err \<Rightarrow> Inl err
         | None \<Rightarrow> Inr (drop num_fixed_types data_types))"

subsection \<open>The reading loop of both loaders\<close>

text \<open>
  Both loaders read with
  \<^verbatim>\<open>while line: line = f.readline(); <body>; linenum += 1\<close>
  where every path through the body, \<open>continue\<close> included, ends with \<open>linenum += 1\<close>.
  \<open>read_loop body line f linenum s\<close> is that loop for the last line read \<open>line\<close> and the
  unread text \<open>f\<close>; the body returns the exception it raises, if any, and the state it
  leaves.
\<close>

function read_loop ::
  "(string \<Rightarrow> nat \<Rightarrow> 's \<Rightarrow> error option \<times> 's) \<Rightarrow> string \<Rightarrow> string \<Rightarrow> nat \<Rightarrow> 's
     \<Rightarrow> error option \<times> 's" where
  "read_loop body line f linenum s =
     (if line = [] then (None, s)
      else (case body (fst (readline f)) linenum s of
              (Some err, s') \<Rightarrow> (Some err, s')
            | (None, s') \<Rightarrow> read_loop body (fst (readline f)) (snd (readline f)) (linenum + 1) s'))"
  by pat_completeness auto
termination
proof (relation "measure (\<lambda>(body, line, f, linenum, s). length f + (if line = [] then 0 else 1))")
  show "wf (measure (\<lambda>(body :: string \<Rightarrow> nat \<Rightarrow> 's \<Rightarrow> error option \<times> 's, line :: string,
        f :: string, linenum :: nat, s :: 's). length f + (if line = [] then 0 else 1)))"
    by simp
next
  fix body :: "string \<Rightarrow> nat \<Rightarrow> 's \<Rightarrow> error option \<times> 's"
  fix line f :: string and linenum :: nat and s s' :: 's and x x1
  assume "line \<noteq> []"
  have len: "length (fst (readline g)) + length (snd (readline g)) = length g" for g
    by (induction g) (auto split: prod.splits)
  have "fst (readline f) = [] \<Longrightarrow> f = []"
    by (cases f) (auto split: prod.splits if_splits)
  moreover have "fst (readline f) \<noteq> [] \<Longrightarrow> length (snd (readline f)) < length f"
    using len [of f] by (cases "fst (readline f)") auto
  ultimately show "((body, fst (readline f), snd (readline f), linenum + 1, s'),
      (body, line, f, linenum, s))
    \<in> measure (\<lambda>(body, line, f, linenum, s). length f + (if line = [] then 0 else 1))"
    using \<open>line \<noteq> []\<close> by (cases "fst (readline f) = []") auto
qed

declare read_loop.simps [simp del]

subsection \<open>load_counties_data\<close>

text \<open>
  \<^verbatim>\<open>year, month, day = line_data[0].split('-')\<close> and
  \<^verbatim>\<open>date(int(year), int(month), int(day))\<close>.
\<close>

definition parse_date :: "env \<Rightarrow> string \<Rightarrow> error + date" where
  "parse_date e s =
     (case str_split CHR ''-'' s of
        [year, month, day] \<Rightarrow>
          (case py_int e year of
             None \<Rightarrow> Inl (ValueError (Invalid_int year))
           | Some y \<Rightarrow>
          (case py_int e month of
             None \<Rightarrow> Inl (ValueError (Invalid_int month))
           | Some m \<Rightarrow>
          (case py_int e day of
             None \<Rightarrow> Inl (ValueError (Invalid_int day))
           | Some d \<Rightarrow> py_date y m d)))
      | parts \<Rightarrow> Inl (ValueError (Unpack (length parts))))"

text \<open>
  \<open>current_date\<close> of a row: the date of its first field if a target date was selected,
  \<open>None\<close> otherwise (\<open>if self.target_date\<close>: a \<open>date\<close> object is always true).
\<close>

definition row_date :: "env \<Rightarrow> covid_data \<Rightarrow> string list \<Rightarrow> error + date option" where
  "row_date e self line_data =
     (if target_date self \<noteq> None then map_sum id Some (parse_date e (line_data ! 0))
      else Inr None)"

text \<open>
  The loop \<open>for i, stat in enumerate(self.stat_names)\<close> on the record of the county:
  the names still to do, from index \<open>i\<close> on. It returns the record as the exception of
  \<open>int(value)\<close> leaves it.
\<close>

fun stats_loop ::
  "env \<Rightarrow> string list \<Rightarrow> nat \<Rightarrow> string list \<Rightarrow> covid_record \<Rightarrow> error option \<times> covid_record" where
  "stats_loop e line_data i [] r = (None, r)"
| "stats_loop e line_data i (stat # rest) r =
     (let value = line_data ! (i + num_fixed_types)
      in if value = [] then stats_loop e line_data (i + 1) rest (AList.update stat (VInt 0) r)
         else (case py_int e value of
                 None \<Rightarrow> (Some (ValueError (Invalid_int value)), r)
               | Some v \<Rightarrow> stats_loop e line_data (i + 1) rest (AList.update stat (VInt v) r)))"

text \<open>
  The body of the loop for one line. The dictionaries of the state and of the county are
  changed in place by the source; here the changed county is stored back into the state
  and the state into \<open>covid_dict\<close>, on every path that has changed them.
\<close>

definition counties_row :: "env \<Rightarrow> covid_data \<Rightarrow> string \<Rightarrow> nat \<Rightarrow> world \<Rightarrow> error option \<times> world" where
  "counties_row e self line linenum w =
     (let line_data = str_split CHR '','' (str_rstrip line)
      in if length line_data \<noteq> num_fixed_types + length (stat_names self)
         then (None, print [Incomplete_data linenum, Skipping_line line] w)
         else
           (case row_date e self line_data of
              Inl err \<Rightarrow> (Some err, w)
            | Inr current_date \<Rightarrow>
                if target_date self \<noteq> None \<and> current_date \<noteq> target_date self then (None, w)
                else
                  (case us_state_abbrev e (line_data ! 2) of
                     None \<Rightarrow> (Some (KeyError (line_data ! 2)), w)
                   | Some st \<Rightarrow>
                       (let cnty = line_data ! 1;
                            fips = line_data ! 3;
                            counties = (case map_of (covid_dict w) st of
                                          None \<Rightarrow> [] | Some cs \<Rightarrow> cs);
                            (r, w1) = (case map_of counties cnty of
                                None \<Rightarrow> ([(''fips'', VStr fips)], w)
                              | Some r0 \<Rightarrow>
                                  (AList.update ''fips'' (VStr fips) r0,
                                   print [Already_loaded cnty st,
                                          Replacing_with (line_data ! 0)] w));
                            (err, r') = stats_loop e line_data 0 (stat_names self) r
                        in (err, w1\<lparr>covid_dict :=
                              AList.update st (AList.update cnty r' counties) (covid_dict w1)\<rparr>)))))"

definition load_counties_data :: "env \<Rightarrow> covid_data \<Rightarrow> world \<Rightarrow> (error + covid_data) \<times> world" where
  "load_counties_data e self w =
     (case files e (counties_path self) of
        None \<Rightarrow> (Inl (RuntimeError (Counties_file_not_found (counties_path self))), w)
      | Some content \<Rightarrow>
          (let line = fst (readline content); f = snd (readline content)
           in case validate_header line of
                Inl err \<Rightarrow> (Inl err, w)
              | Inr names \<Rightarrow>
                  (let self' = self\<lparr>stat_names := names\<rparr>
                   in case read_loop (counties_row e self') line f 1 w of
                        (Some err, w') \<Rightarrow> (Inl err, w')
                      | (None, w') \<Rightarrow> (Inr self', w'))))"

subsection \<open>load_geocodes_data\<close>

text \<open>
  The body of the loop for one line: \<open>float\<close> and \<open>int\<close> are applied, in this order,
  before \<open>geo_dict\<close> is touched.
\<close>

definition geocodes_row :: "env \<Rightarrow> string \<Rightarrow> nat \<Rightarrow> world \<Rightarrow> error option \<times> world" where
  "geocodes_row e line linenum w =
     (let line_data = str_split CHR '','' (str_rstrip line)
      in if length line_data < length geo_data_types
         then (None, print [Incomplete_data linenum, Skipping_line line] w)
         else
           (let st = line_data ! 2; cnty = line_data ! 5
            in case py_float e (line_data ! 3) of
                 None \<Rightarrow> (Some (ValueError (Invalid_float (line_data ! 3))), w)
               | Some la \<Rightarrow>
              (case py_float e (line_data ! 4) of
                 None \<Rightarrow> (Some (ValueError (Invalid_float (line_data ! 4))), w)
               | Some lo \<Rightarrow>
              (case py_int e (line_data ! 10) of
                 None \<Rightarrow> (Some (ValueError (Invalid_int (line_data ! 10))), w)
               | Some pop \<Rightarrow>
                  (let counties = (case map_of (geo_dict w) st of
                                     None \<Rightarrow> [] | Some cs \<Rightarrow> cs);
                       r = (case map_of counties cnty of
                              None \<Rightarrow> \<lparr>lat = la, lon = lo, population = pop,
                                        largest_city = pop\<rparr>
                            | Some r0 \<Rightarrow>
                                (let r1 = r0\<lparr>population := population r0 + pop\<rparr>
                                 in if pop > largest_city r1
                                    then r1\<lparr>lat := la, lon := lo, largest_city := pop\<rparr>
                                    else r1))
                   in (None, w\<lparr>geo_dict :=
                         AList.update st (AList.update cnty r counties) (geo_dict w)\<rparr>))))))"

text \<open>The existence check is on \<open>self.counties_path\<close>; the file opened is \<open>self.geocodes_path\<close>.\<close>

definition load_geocodes_data :: "env \<Rightarrow> covid_data \<Rightarrow> world \<Rightarrow> error option \<times> world" where
  "load_geocodes_data e self w =
     (if files e (counties_path self) = None
      then (Some (RuntimeError (Geocodes_file_not_found (counties_path self))), w)
      else (case files e (geocodes_path self) of
              None \<Rightarrow> (Some (FileNotFoundError (geocodes_path self)), w)
            | Some content \<Rightarrow>
                read_loop (geocodes_row e) (fst (readline content)) (snd (readline content)) 1 w))"

subsection \<open>__init__\<close>

definition CovidData_init ::
  "env \<Rightarrow> string \<Rightarrow> string \<Rightarrow> date option \<Rightarrow> world \<Rightarrow> (error + covid_data) \<times> world" where
  "CovidData_init e counties_path' geocodes_path' target_date' w =
     (let self = \<lparr>counties_path = counties_path', geocodes_path = geocodes_path',
                  target_date = target_date', stat_names = []\<rparr>
      in case load_counties_data e self w of
           (Inl err, w1) \<Rightarrow> (Inl err, w1)
         | (Inr self', w1) \<Rightarrow>
             (case load_geocodes_data e self' w1 of
                (Some err, w2) \<Rightarrow> (Inl err, w2)
              | (None, w2) \<Rightarrow> (Inr self', w2)))"

subsection \<open>compute_stats\<close>

text \<open>
  The body of the inner loop for the county \<open>new_county\<close> of the state \<open>new_state\<close>.
  In \<open>dist <= distance and new_county in self.covid_dict[new_state]\<close> the lookup
  \<open>self.covid_dict[new_state]\<close> is evaluated only when the comparison holds.
\<close>

definition county_step ::
  "env \<Rightarrow> request \<Rightarrow> string \<Rightarrow> pyfloat \<times> pyfloat \<Rightarrow> string \<Rightarrow> string \<Rightarrow> result \<Rightarrow> world
     \<Rightarrow> (error + result) \<times> world" where
  "county_step e rq stat origin new_state new_county res w =
     (if new_county = [] then (Inr res, w)
      else
        (case map_of (geo_dict w) new_state of
           None \<Rightarrow> (Inl (KeyError new_state), w)
         | Some cs \<Rightarrow>
        (case map_of cs new_county of
           None \<Rightarrow> (Inl (KeyError new_county), w)
         | Some g \<Rightarrow>
        (case haversine e origin (lat g, lon g) of
           None \<Rightarrow> (Inl (ValueError Math_domain), w)
         | Some dst \<Rightarrow>
             if \<not> float_le dst (distance rq) then (Inr res, w)
             else
               (case map_of (covid_dict w) new_state of
                  None \<Rightarrow> (Inl (KeyError new_state), w)
                | Some ccs \<Rightarrow>
               (case map_of ccs new_county of
                  None \<Rightarrow> (Inr res, w)
                | Some crec \<Rightarrow>
                   (let w1 = print [Dist_between (county rq) (state rq) new_county new_state
                                      dst] w
                    in case map_of crec stat of
                         None \<Rightarrow> (Inl (KeyError stat), w1)
                       | Some (VStr s) \<Rightarrow> (Inl TypeError, w1)
                       | Some (VInt n) \<Rightarrow>
                           (let w2 = print [Adding n (res_stat_total res) new_county
                                              new_state] w1
                            in case map_of crec ''fips'' of
                                 None \<Rightarrow> (Inl (KeyError ''fips''), w2)
                               | Some fp \<Rightarrow>
                                   (Inr (res\<lparr>res_stat_total := res_stat_total res + n,
                                             res_population :=
                                               res_population res + population g,
                                             res_counties :=
                                               res_counties res @ [(new_county, new_state)],
                                             res_fips := res_fips res @ [fp]\<rparr>),
                                    w2)))))))))"

text \<open>\<open>for new_county in self.geo_dict[new_state]\<close>, over the keys still to visit.\<close>

fun county_loop ::
  "env \<Rightarrow> request \<Rightarrow> string \<Rightarrow> pyfloat \<times> pyfloat \<Rightarrow> string \<Rightarrow> string list \<Rightarrow> result \<Rightarrow> world
     \<Rightarrow> (error + result) \<times> world" where
  "county_loop e rq stat origin new_state [] res w = (Inr res, w)"
| "county_loop e rq stat origin new_state (new_county # rest) res w =
     (case county_step e rq stat origin new_state new_county res w of
        (Inl err, w') \<Rightarrow> (Inl err, w')
      | (Inr res', w') \<Rightarrow> county_loop e rq stat origin new_state rest res' w')"

text \<open>\<open>for new_state in self.geo_dict\<close>, over the keys still to visit.\<close>

fun state_loop ::
  "env \<Rightarrow> request \<Rightarrow> string \<Rightarrow> pyfloat \<times> pyfloat \<Rightarrow> string list \<Rightarrow> result \<Rightarrow> world
     \<Rightarrow> (error + result) \<times> world" where
  "state_loop e rq stat origin [] res w = (Inr res, w)"
| "state_loop e rq stat origin (new_state # rest) res w =
     (case map_of (geo_dict w) new_state of
        None \<Rightarrow> (Inl (KeyError new_state), w)
      | Some cs \<Rightarrow>
          (case county_loop e rq stat origin new_state (map fst cs) res w of
             (Inl err, w') \<Rightarrow> (Inl err, w')
           | (Inr res', w') \<Rightarrow> state_loop e rq stat origin rest res' w'))"

text \<open>
  The dictionary \<open>result\<close> gets its key \<open>'cords'\<close> after the two checks on the request;
  nothing reads it in between, so the record is built once \<open>origin\<close> is known.
\<close>

definition compute_stats ::
  "env \<Rightarrow> covid_data \<Rightarrow> request \<Rightarrow> string \<Rightarrow> world \<Rightarrow> (error + result) \<times> world" where
  "compute_stats e self rq stat w =
     (if stat \<notin> set (stat_names self)
      then (Inl (ValueError (Statistic_not_found stat)), w)
      else
        (let w1 = print [Finding stat (distance rq) (county rq) (state rq)] w
         in case map_of (geo_dict w1) (state rq) of
              None \<Rightarrow> (Inl (ValueError (State_not_found (state rq))), w1)
            | Some cs \<Rightarrow>
           (case map_of cs (county rq) of
              None \<Rightarrow> (Inl (ValueError (County_not_found (county rq) (state rq))), w1)
            | Some g \<Rightarrow>
               (let origin = (lat g, lon g);
                    res = \<lparr>res_state = state rq, res_county = county rq, res_fips = [],
                           res_counties = [], res_stat = stat, res_population = 0,
                           res_stat_total = 0, res_cords = origin\<rparr>
                in case state_loop e rq stat origin (map fst (geo_dict w1)) res w1 of
                     (Inl err, w2) \<Rightarrow> (Inl err, w2)
                   | (Inr res', w2) \<Rightarrow>
                       (Inr res',
                        print [In_total (res_stat_total res') stat (distance rq) (county rq)
                                 (state rq) (res_population res')] w2)))))"


section \<open>run.py\<close>

subsection \<open>get_requests\<close>

text \<open>
  The \<open>try\<close> block for one line: every exception it raises is a \<open>ValueError\<close>, which the
  \<open>except\<close> clause turns into a \<open>RuntimeError\<close>.
\<close>

definition request_row :: "env \<Rightarrow> string \<Rightarrow> value_error + request" where
  "request_row e line =
     (case str_split CHR '','' line of
        [cnty, st, dst] \<Rightarrow>
          (case py_float e dst of
             None \<Rightarrow> Inl (Invalid_float dst)
           | Some d \<Rightarrow>
               if float_gt d (Fin 1000) then Inl Distance_too_large
               else Inr \<lparr>state = st, county = cnty, distance = d\<rparr>)
      | parts \<Rightarrow> Inl (Unpack (length parts)))"

text \<open>
  \<^verbatim>\<open>while line: <try block>; line = f.readline().rstrip()\<close> for the stripped line
  \<open>line\<close> and the unread text \<open>f\<close>.
\<close>

function requests_loop :: "env \<Rightarrow> string \<Rightarrow> string \<Rightarrow> request list \<Rightarrow> error + request list" where
  "requests_loop e line f requests =
     (if line = [] then Inr requests
      else (case request_row e line of
              Inl err \<Rightarrow> Inl (RuntimeError (Invalid_input err))
            | Inr rq \<Rightarrow>
                requests_loop e (str_rstrip (fst (readline f))) (snd (readline f))
                  (requests @ [rq])))"
  by pat_completeness auto
termination
proof (relation "measure (\<lambda>(e, line, f, requests). length f + (if line = [] then 0 else 1))")
  show "wf (measure (\<lambda>(e :: env, line :: string, f :: string, requests :: request list).
        length f + (if line = [] then 0 else 1)))"
    by simp
next
  fix e :: env and line f :: string and requests :: "request list" and rq :: request
  assume "line \<noteq> []"
  have len: "length (fst (readline g)) + length (snd (readline g)) = length g" for g
    by (induction g) (auto split: prod.splits)
  have "f \<noteq> [] \<Longrightarrow> fst (readline f) \<noteq> []"
    by (cases f) (auto split: prod.splits if_splits)
  then have "f \<noteq> [] \<Longrightarrow> length (snd (readline f)) < length f"
    using len [of f] by (cases "fst (readline f)") auto
  then show "((e, str_rstrip (fst (readline f)), snd (readline f), requests @ [rq]),
      (e, line, f, requests))
    \<in> measure (\<lambda>(e, line, f, requests). length f + (if line = [] then 0 else 1))"
    using \<open>line \<noteq> []\<close> by (cases f) (auto simp: str_rstrip_def)
qed

declare requests_loop.simps [simp del]

definition get_requests :: "env \<Rightarrow> string \<Rightarrow> error + request list" where
  "get_requests e input_path =
     (case files e input_path of
        None \<Rightarrow> Inl (RuntimeError (Input_file_missing input_path))
      | Some content \<Rightarrow>
          (let f = snd (readline content)
           in requests_loop e (str_rstrip (fst (readline f))) (snd (readline f)) []))"

subsection \<open>main, from the call of get_requests to the last call of compute_stats\<close>

fun results_loop ::
  "env \<Rightarrow> covid_data \<Rightarrow> string \<Rightarrow> request list \<Rightarrow> result list \<Rightarrow> world
     \<Rightarrow> (error + result list) \<times> world" where
  "results_loop e data statistic [] results w = (Inr results, w)"
| "results_loop e data statistic (rq # rest) results w =
     (case compute_stats e data rq statistic w of
        (Inl err, w') \<Rightarrow> (Inl err, w')
      | (Inr r, w') \<Rightarrow> results_loop e data statistic rest (results @ [r]) w')"

definition main ::
  "env \<Rightarrow> string \<Rightarrow> string \<Rightarrow> string \<Rightarrow> date option \<Rightarrow> string \<Rightarrow> world
     \<Rightarrow> (error + result list) \<times> world" where
  "main e input_path counties_data geocodes target_date' statistic w =
     (case get_requests e input_path of
        Inl err \<Rightarrow> (Inl err, w)
      | Inr requests \<Rightarrow>
          (case CovidData_init e counties_data geocodes target_date' w of
             (Inl err, w') \<Rightarrow> (Inl err, w')
           | (Inr data, w') \<Rightarrow> results_loop e data statistic requests [] w'))"



section \<open>Notions used in the statements\<close>

subsection \<open>Files as lists of lines\<close>

text \<open>
  The lines of a text, each with its newline character, as successive calls of
  \<open>readline\<close> return them; and the reading loop run over a list of lines.
\<close>

fun file_lines :: "string \<Rightarrow> string list" where
  "file_lines [] = []"
| "file_lines (c # cs) =
     (if c = CHR 0x0A then [c] # file_lines cs
      else (case file_lines cs of [] \<Rightarrow> [[c]] | l # ls \<Rightarrow> (c # l) # ls))"

fun rows_loop ::
  "(string \<Rightarrow> nat \<Rightarrow> 's \<Rightarrow> error option \<times> 's) \<Rightarrow> string list \<Rightarrow> nat \<Rightarrow> 's \<Rightarrow> error option \<times> 's" where
  "rows_loop body [] linenum s = (None, s)"
| "rows_loop body (l # ls) linenum s =
     (case body l linenum s of
        (Some err, s') \<Rightarrow> (Some err, s')
      | (None, s') \<Rightarrow> rows_loop body ls (linenum + 1) s')"

subsection \<open>Looking a county up\<close>

text \<open>\<open>self.geo_dict[st][cnty]\<close> and \<open>self.covid_dict[st][cnty]\<close>, \<open>None\<close> when a key is missing.\<close>

definition geo_lookup :: "world \<Rightarrow> string \<Rightarrow> string \<Rightarrow> geo_record option" where
  "geo_lookup w st cnty = (case map_of (geo_dict w) st of None \<Rightarrow> None | Some cs \<Rightarrow> map_of cs cnty)"

definition covid_lookup :: "world \<Rightarrow> string \<Rightarrow> string \<Rightarrow> covid_record option" where
  "covid_lookup w st cnty = (case map_of (covid_dict w) st of None \<Rightarrow> None | Some cs \<Rightarrow> map_of cs cnty)"

subsection \<open>The sub-entries of a county in the geocode file\<close>

text \<open>
  A sub-entry is a row of the geocode file that the loader does not skip. \<open>geo_sub_entry\<close>
  reads a line as a sub-entry of the county \<open>cnty\<close> of the state \<open>st\<close>: the line has at
  least twelve fields, its fields 2 and 5 are \<open>st\<close> and \<open>cnty\<close>, and its latitude,
  longitude and population are read by \<open>float\<close> and \<open>int\<close>. \<open>sub_entries\<close> are those of
  a file, in the order of the file, its header left out.
\<close>

record sub_entry =
  sub_lat :: pyfloat
  sub_lon :: pyfloat
  sub_population :: int

definition geo_sub_entry :: "env \<Rightarrow> string \<Rightarrow> string \<Rightarrow> string \<Rightarrow> sub_entry option" where
  "geo_sub_entry e st cnty line =
     (let line_data = str_split CHR '','' (str_rstrip line)
      in if length line_data < length geo_data_types \<or> line_data ! 2 \<noteq> st \<or> line_data ! 5 \<noteq> cnty
         then None
         else (case (py_float e (line_data ! 3), py_float e (line_data ! 4),
                     py_int e (line_data ! 10)) of
                 (Some la, Some lo, Some pop) \<Rightarrow>
                   Some \<lparr>sub_lat = la, sub_lon = lo, sub_population = pop\<rparr>
               | _ \<Rightarrow> None))"

definition sub_entries :: "env \<Rightarrow> string \<Rightarrow> string \<Rightarrow> string \<Rightarrow> sub_entry list" where
  "sub_entries e content st cnty = List.map_filter (geo_sub_entry e st cnty) (tl (file_lines content))"

text \<open>What one sub-entry does to the record of its county (\<open>None\<close>: no record yet).\<close>

definition merge_sub :: "geo_record option \<Rightarrow> sub_entry \<Rightarrow> geo_record" where
  "merge_sub ro x =
     (case ro of
        None \<Rightarrow> \<lparr>lat = sub_lat x, lon = sub_lon x, population = sub_population x,
                  largest_city = sub_population x\<rparr>
      | Some r0 \<Rightarrow>
          if sub_population x > largest_city r0
          then r0\<lparr>population := population r0 + sub_population x, lat := sub_lat x,
                  lon := sub_lon x, largest_city := sub_population x\<rparr>
          else r0\<lparr>population := population r0 + sub_population x\<rparr>)"

subsection \<open>Tables that keep their entries\<close>

text \<open>Every county that has a record in a table of \<open>w\<close> has one in the same table of \<open>w'\<close>.\<close>

definition tables_kept :: "world \<Rightarrow> world \<Rightarrow> bool" where
  "tables_kept w w' \<longleftrightarrow>
     (\<forall>st cnty. covid_lookup w st cnty \<noteq> None \<longrightarrow> covid_lookup w' st cnty \<noteq> None)
   \<and> (\<forall>st cnty. geo_lookup w st cnty \<noteq> None \<longrightarrow> geo_lookup w' st cnty \<noteq> None)"

subsection \<open>Qualifying rows of the statistics file\<close>

text \<open>
  The value of a statistic field (\<open>None\<close>: \<open>int\<close> raises). A row qualifies when the
  loader stores it: it has the expected number of fields, its date is read and is the
  target date if one was selected, its state is in \<open>us_state_abbrev\<close>, and each of its
  statistic fields has a value.
\<close>

definition field_value :: "env \<Rightarrow> string \<Rightarrow> int option" where
  "field_value e value = (if value = [] then Some 0 else py_int e value)"

definition qualifying :: "env \<Rightarrow> covid_data \<Rightarrow> string \<Rightarrow> bool" where
  "qualifying e self line \<longleftrightarrow>
     (let d = str_split CHR '','' (str_rstrip line)
      in length d = num_fixed_types + length (stat_names self)
       \<and> (case row_date e self d of
            Inl err \<Rightarrow> False
          | Inr current_date \<Rightarrow> target_date self = None \<or> current_date = target_date self)
       \<and> us_state_abbrev e (d ! 2) \<noteq> None
       \<and> (\<forall>i < length (stat_names self). field_value e (d ! (i + num_fixed_types)) \<noteq> None))"

text \<open>
  One entry for each state of \<open>covid_dict\<close>, and in each state one entry for each county.
\<close>

definition covid_unique :: "world \<Rightarrow> bool" where
  "covid_unique w \<longleftrightarrow>
     distinct (map fst (covid_dict w))
   \<and> (\<forall>st cs. map_of (covid_dict w) st = Some cs \<longrightarrow> distinct (map fst cs))"

subsection \<open>The three errors of compute_stats about its request\<close>

fun lookup_failure :: "error \<Rightarrow> bool" where
  "lookup_failure (ValueError (Statistic_not_found s)) = True"
| "lookup_failure (ValueError (State_not_found s)) = True"
| "lookup_failure (ValueError (County_not_found c s)) = True"
| "lookup_failure err = False"

subsection \<open>The rows of the request file\<close>

text \<open>
  The lines that the loop of \<open>get_requests\<close> reads: the stripped lines after the header,
  up to the first one that is empty once stripped; and the loop run over a list of them.
\<close>

definition request_rows :: "string \<Rightarrow> string list" where
  "request_rows content = takeWhile (\<lambda>l. l \<noteq> []) (map str_rstrip (tl (file_lines content)))"

fun requests_rows :: "env \<Rightarrow> string list \<Rightarrow> request list \<Rightarrow> error + request list" where
  "requests_rows e [] requests = Inr requests"
| "requests_rows e (l # ls) requests =
     (case request_row e l of
        Inl err \<Rightarrow> Inl (RuntimeError (Invalid_input err))
      | Inr rq \<Rightarrow> requests_rows e ls (requests @ [rq]))"


section \<open>An environment for closed examples\<close>

text \<open>
  In the examples \<open>int\<close> and \<open>float\<close> read decimal numerals with an optional minus
  sign, \<open>us_state_abbrev\<close> has two states, and \<open>example_haversine\<close> stands for
  \<open>haversine.py\<close>: the examples call it on coincident points with finite coordinates
  only, where the source returns \<open>0.0\<close>.
\<close>

definition digit_of :: "char \<Rightarrow> nat option" where
  "digit_of c = (if c \<in> set ''0123456789'' then Some (of_char c - 48) else None)"

fun dec_nat :: "nat \<Rightarrow> string \<Rightarrow> nat option" where
  "dec_nat n [] = Some n"
| "dec_nat n (c # cs) = (case digit_of c of None \<Rightarrow> None | Some d \<Rightarrow> dec_nat (10 * n + d) cs)"

definition dec_int :: "string \<Rightarrow> int option" where
  "dec_int s =
     (case s of
        [] \<Rightarrow> None
      | c # cs \<Rightarrow>
          if c = CHR ''-'' then (if cs = [] then None else map_option (\<lambda>n. - int n) (dec_nat 0 cs))
          else map_option int (dec_nat 0 s))"

definition dec_float :: "string \<Rightarrow> pyfloat option" where
  "dec_float s = map_option (\<lambda>n. Fin (of_int n)) (dec_int s)"

definition example_haversine :: "pyfloat \<times> pyfloat \<Rightarrow> pyfloat \<times> pyfloat \<Rightarrow> pyfloat option" where
  "example_haversine a b =
     (case (fst a, snd a, fst b, snd b) of
        (Fin la1, Fin lo1, Fin la2, Fin lo2) \<Rightarrow> Some (Fin (69 * (\<bar>la1 - la2\<bar> + \<bar>lo1 - lo2\<bar>)))
      | _ \<Rightarrow> Some NaN)"

definition example_env :: "(string \<times> string) list \<Rightarrow> env" where
  "example_env fs =
     \<lparr>files = map_of fs, py_int = dec_int, py_float = dec_float,
      us_state_abbrev = map_of [(''California'', ''CA''), (''Nevada'', ''NV'')],
      haversine = example_haversine\<rparr>"

definition world0 :: world where
  "world0 = \<lparr>covid_dict = [], geo_dict = [], stdout = []\<rparr>"

definition example_counties :: string where
  "example_counties = ''date,county,state,fips,cases,deaths\<newline>2020-04-01,Alameda,California,06001,10,1\<newline>2020-04-01,Washoe,Nevada,32031,7,\<newline>''"

definition nevada_counties :: string where
  "nevada_counties = ''date,county,state,fips,cases,deaths\<newline>2020-04-01,Washoe,Nevada,32031,7,\<newline>''"

definition short_header_counties :: string where
  "short_header_counties = ''date,county,state\<newline>2020-04-01,Alameda,California\<newline>''"

definition example_geocodes :: string where
  "example_geocodes = ''zip,primary_city,state,latitude,longitude,county,type,world_region,country,decommissioned,estimated_population,notes\<newline>94501,Alameda,CA,37,-122,Alameda,STANDARD,NA,US,0,100,\<newline>94601,Oakland,CA,38,-122,Alameda,STANDARD,NA,US,0,300,\<newline>94999,Nowhere,CA,39,-121,,STANDARD,NA,US,0,5,\<newline>''"

definition example_requests :: string where
  "example_requests = ''county,state,distance\<newline>Alameda,CA,1000\<newline>''"

definition large_requests :: string where
  "large_requests = ''county,state,distance\<newline>Alameda,CA,1000\<newline>Washoe,NV,1001\<newline>''"

definition example_files :: "(string \<times> string) list" where
  "example_files = [(''counties.csv'', example_counties), (''geocodes.csv'', example_geocodes),
     (''requests.csv'', example_requests)]"

definition example_self :: covid_data where
  "example_self = \<lparr>counties_path = ''counties.csv'', geocodes_path = ''geocodes.csv'',
     target_date = None, stat_names = [''cases'', ''deaths'']\<rparr>"

definition loaded_world :: world where
  "loaded_world = snd (CovidData_init (example_env example_files) ''counties.csv'' ''geocodes.csv'' None world0)"

definition nameless_row :: string where
  "nameless_row = ''94999,Nowhere,CA,39,-121,,STANDARD,NA,US,0,5,\<newline>''"

definition later_row :: string where
  "later_row = ''2020-04-02,Alameda,California,06001,20,\<newline>''"


section \<open>The reading loops over the lines of a file\<close>

lemma file_lines_readline:
  "f \<noteq> [] \<Longrightarrow> file_lines f = fst (readline f) # file_lines (snd (readline f))"
proof (induction f)
  case Nil
  then show ?case by simp
next
  case (Cons c cs)
  show ?case
  proof (cases "cs = []")
    case True
    then show ?thesis by simp
  next
    case False
    with Cons.IH show ?thesis by (simp split: prod.splits)
  qed
qed

lemma readline_empty: "fst (readline f) = [] \<longleftrightarrow> f = []"
  by (cases f) (auto split: prod.splits if_splits)

lemma read_loop_rows:
  "line \<noteq> [] \<Longrightarrow> read_loop body line f linenum s = rows_loop body (file_lines f @ [[]]) linenum s"
proof (induction f arbitrary: line linenum s rule: length_induct)
  case (1 f)
  show ?case
  proof (cases "f = []")
    case True
    with "1.prems" show ?thesis
      by (simp add: read_loop.simps [of body line] read_loop.simps [of body "[]"] split: prod.splits option.splits)
  next
    case False
    then have ne: "fst (readline f) \<noteq> []" by (simp add: readline_empty)
    have len: "length (fst (readline g)) + length (snd (readline g)) = length g" for g
      by (induction g) (auto split: prod.splits)
    from ne len [of f] have shorter: "length (snd (readline f)) < length f"
      by (cases "fst (readline f)") auto
    have IH: "read_loop body (fst (readline f)) (snd (readline f)) n t
        = rows_loop body (file_lines (snd (readline f)) @ [[]]) n t" for n t
      using "1.IH" shorter ne by blast
    show ?thesis
      using "1.prems" False
      by (simp add: read_loop.simps [of body line f] file_lines_readline [OF False] IH
            split: prod.splits option.splits)
  qed
qed

text \<open>A relation that every run of the body keeps is kept by the loop.\<close>

lemma rows_loop_rel:
  assumes step: "\<And>l n s. R s (snd (body l n s))"
    and refl: "\<And>s. R s s"
    and trans: "\<And>a b c. R a b \<Longrightarrow> R b c \<Longrightarrow> R a c"
  shows "R s (snd (rows_loop body ls n s))"
proof (induction ls arbitrary: n s)
  case Nil
  then show ?case by (simp add: refl)
next
  case (Cons l ls)
  show ?case
  proof (cases "body l n s")
    case (Pair res s')
    with step [of s l n] have first: "R s s'" by simp
    show ?thesis
    proof (cases res)
      case None
      with Pair Cons.IH [of s' "n + 1"] first show ?thesis
        by (auto intro: trans)
    next
      case (Some err)
      with Pair first show ?thesis by simp
    qed
  qed
qed

lemma read_loop_rel:
  assumes step: "\<And>l n s. R s (snd (body l n s))"
    and refl: "\<And>s. R s s"
    and trans: "\<And>a b c. R a b \<Longrightarrow> R b c \<Longrightarrow> R a c"
  shows "R s (snd (read_loop body line f n s))"
proof (cases "line = []")
  case True
  then show ?thesis by (simp add: read_loop.simps [of body "[]"] refl)
next
  case False
  then show ?thesis by (simp add: read_loop_rows rows_loop_rel [of R, OF step refl trans])
qed

lemma read_loop_continues:
  assumes "prev \<noteq> []" and "fst (body (fst (readline f)) n s) = None"
  shows "read_loop body prev f n s
     = read_loop body (fst (readline f)) (snd (readline f)) (n + 1) (snd (body (fst (readline f)) n s))"
  using assms by (cases "body (fst (readline f)) n s") (simp add: read_loop.simps [of body prev f])


section \<open>Stores into the nested dictionaries\<close>

lemma nested_update_lookup:
  "(case map_of (AList.update st (AList.update cnty r
        (case map_of D st of None \<Rightarrow> [] | Some cs \<Rightarrow> cs)) D) st' of
      None \<Rightarrow> None | Some cs \<Rightarrow> map_of cs cnty')
   = (if st' = st \<and> cnty' = cnty then Some r
      else (case map_of D st' of None \<Rightarrow> None | Some cs \<Rightarrow> map_of cs cnty'))"
  by (auto simp: update_conv' split: option.splits)

lemma map_of_counties:
  "map_of (case map_of D st of None \<Rightarrow> [] | Some cs \<Rightarrow> cs) cnty
   = (case map_of D st of None \<Rightarrow> None | Some cs \<Rightarrow> map_of cs cnty)"
  by (simp split: option.splits)

lemma geo_lookup_store:
  "geo_lookup (w\<lparr>geo_dict := AList.update st (AList.update cnty r
        (case map_of (geo_dict w) st of None \<Rightarrow> [] | Some cs \<Rightarrow> cs)) (geo_dict w)\<rparr>) st' cnty'
   = (if st' = st \<and> cnty' = cnty then Some r else geo_lookup w st' cnty')"
  by (auto simp: geo_lookup_def update_conv' split: option.splits)

lemma covid_lookup_store:
  "covid_lookup (w1\<lparr>covid_dict := AList.update st (AList.update cnty r
        (case map_of (covid_dict w) st of None \<Rightarrow> [] | Some cs \<Rightarrow> cs)) (covid_dict w)\<rparr>) st' cnty'
   = (if st' = st \<and> cnty' = cnty then Some r else covid_lookup w st' cnty')"
  by (simp add: covid_lookup_def nested_update_lookup)

lemma geo_lookup_print [simp]: "geo_lookup (print msgs w) = geo_lookup w"
  by (simp add: geo_lookup_def print_def fun_eq_iff)

lemma covid_lookup_print [simp]: "covid_lookup (print msgs w) = covid_lookup w"
  by (simp add: covid_lookup_def print_def fun_eq_iff)


section \<open>One row of the geocode file\<close>

lemma geocodes_row_lookup:
  assumes "geocodes_row e line n w = (None, w')"
  shows "geo_lookup w' st cnty =
     (case geo_sub_entry e st cnty line of
        None \<Rightarrow> geo_lookup w st cnty
      | Some x \<Rightarrow> Some (merge_sub (geo_lookup w st cnty) x))"
proof -
  define d where "d = str_split CHR '','' (str_rstrip line)"
  show ?thesis
  proof (cases "length d < length geo_data_types")
    case True
    with assms show ?thesis
      by (auto simp: geocodes_row_def geo_sub_entry_def d_def Let_def)
  next
    case False
    with assms obtain la lo pop where
      p: "py_float e (d ! 3) = Some la" "py_float e (d ! 4) = Some lo" "py_int e (d ! 10) = Some pop"
      by (auto simp: geocodes_row_def d_def Let_def split: option.splits)
    define r where "r = merge_sub (geo_lookup w (d ! 2) (d ! 5)) \<lparr>sub_lat = la, sub_lon = lo, sub_population = pop\<rparr>"
    have w': "w' = w\<lparr>geo_dict := AList.update (d ! 2) (AList.update (d ! 5) r
        (case map_of (geo_dict w) (d ! 2) of None \<Rightarrow> [] | Some cs \<Rightarrow> cs)) (geo_dict w)\<rparr>"
      using assms False p
      by (auto simp: geocodes_row_def d_def [symmetric] Let_def r_def merge_sub_def geo_lookup_def
          split: option.splits)
    show ?thesis
      unfolding w' geo_lookup_store
      using False p by (auto simp: geo_sub_entry_def d_def [symmetric] Let_def r_def)
  qed
qed

lemma geocodes_row_error: "geocodes_row e line n w = (Some err, w') \<Longrightarrow> w' = w"
  by (auto simp: geocodes_row_def Let_def split: if_splits option.splits)

lemma geocodes_row_other:
  assumes "length (str_split CHR '','' (str_rstrip line)) < length geo_data_types
      \<or> str_split CHR '','' (str_rstrip line) ! 2 \<noteq> st
      \<or> str_split CHR '','' (str_rstrip line) ! 5 \<noteq> cnty"
  shows "geo_lookup (snd (geocodes_row e line n w)) st cnty = geo_lookup w st cnty"
proof (cases "geocodes_row e line n w")
  case (Pair res w')
  show ?thesis
  proof (cases res)
    case None
    with Pair geocodes_row_lookup [of e line n w w' st cnty] assms show ?thesis
      by (auto simp: geo_sub_entry_def Let_def)
  next
    case (Some err)
    with Pair geocodes_row_error show ?thesis by fastforce
  qed
qed

lemma geocodes_row_stores:
  assumes "geocodes_row e line n w = (None, w')"
    and "length geo_data_types \<le> length (str_split CHR '','' (str_rstrip line))"
  shows "geo_lookup w' (str_split CHR '','' (str_rstrip line) ! 2)
           (str_split CHR '','' (str_rstrip line) ! 5) \<noteq> None"
  using assms geocodes_row_lookup [OF assms(1),
      of "str_split CHR '','' (str_rstrip line) ! 2" "str_split CHR '','' (str_rstrip line) ! 5"]
  by (auto simp: geo_sub_entry_def geocodes_row_def Let_def split: option.splits if_splits)

lemma geocodes_row_covid: "covid_dict (snd (geocodes_row e line n w)) = covid_dict w"
  by (auto simp: geocodes_row_def Let_def print_def split: option.splits)

lemma geocodes_row_kept: "tables_kept w (snd (geocodes_row e line n w))"
proof -
  have "geo_lookup w st cnty \<noteq> None \<Longrightarrow> geo_lookup (snd (geocodes_row e line n w)) st cnty \<noteq> None"
    for st cnty
  proof (cases "geocodes_row e line n w")
    case (Pair res w')
    assume a: "geo_lookup w st cnty \<noteq> None"
    show ?thesis
    proof (cases res)
      case None
      with Pair geocodes_row_lookup [of e line n w w' st cnty] a show ?thesis
        by (auto split: option.splits)
    next
      case (Some err)
      with Pair geocodes_row_error a show ?thesis by fastforce
    qed
  qed
  then show ?thesis
    by (simp add: tables_kept_def covid_lookup_def geocodes_row_covid)
qed


section \<open>The geocode file as a whole\<close>

lemma rows_loop_geo_lookup:
  "rows_loop (geocodes_row e) ls n w = (None, w') \<Longrightarrow>
   geo_lookup w' st cnty =
     foldl (\<lambda>ro x. Some (merge_sub ro x)) (geo_lookup w st cnty)
       (List.map_filter (geo_sub_entry e st cnty) ls)"
proof (induction ls arbitrary: n w)
  case Nil
  then show ?case by simp
next
  case (Cons l ls)
  obtain res w1 where step: "geocodes_row e l n w = (res, w1)"
    by (cases "geocodes_row e l n w")
  with Cons.prems have res: "res = None" and rest: "rows_loop (geocodes_row e) ls (n + 1) w1 = (None, w')"
    by (auto split: option.splits)
  from step res have "geo_lookup w1 st cnty =
     (case geo_sub_entry e st cnty l of
        None \<Rightarrow> geo_lookup w st cnty
      | Some x \<Rightarrow> Some (merge_sub (geo_lookup w st cnty) x))"
    by (simp add: geocodes_row_lookup)
  with Cons.IH [OF rest] show ?case
    by (simp split: option.splits)
qed

lemma foldl_merge_first_largest:
  "xs \<noteq> [] \<Longrightarrow>
   \<exists>r i. foldl (\<lambda>ro x. Some (merge_sub ro x)) None xs = Some r
     \<and> population r = sum_list (map sub_population xs)
     \<and> i < length xs
     \<and> lat r = sub_lat (xs ! i) \<and> lon r = sub_lon (xs ! i)
     \<and> largest_city r = sub_population (xs ! i)
     \<and> (\<forall>j < length xs. sub_population (xs ! j) \<le> sub_population (xs ! i))
     \<and> (\<forall>j < i. sub_population (xs ! j) < sub_population (xs ! i))"
proof (induction xs rule: rev_induct)
  case Nil
  then show ?case by simp
next
  case (snoc x xs)
  show ?case
  proof (cases "xs = []")
    case True
    then show ?thesis by (simp add: merge_sub_def)
  next
    case False
    from snoc.IH [OF False] obtain r i where
      r: "foldl (\<lambda>ro x. Some (merge_sub ro x)) None xs = Some r"
      and pop: "population r = sum_list (map sub_population xs)"
      and i: "i < length xs"
      and ll: "lat r = sub_lat (xs ! i)" "lon r = sub_lon (xs ! i)"
      and lc: "largest_city r = sub_population (xs ! i)"
      and mx: "\<forall>j < length xs. sub_population (xs ! j) \<le> sub_population (xs ! i)"
      and fst: "\<forall>j < i. sub_population (xs ! j) < sub_population (xs ! i)"
      by blast
    show ?thesis
    proof (cases "sub_population x > largest_city r")
      case True
      have "\<forall>j < length xs. sub_population (xs ! j) < sub_population x"
        using mx lc True by fastforce
      then have "\<forall>j < length (xs @ [x]). sub_population ((xs @ [x]) ! j) \<le> sub_population ((xs @ [x]) ! length xs)"
          and "\<forall>j < length xs. sub_population ((xs @ [x]) ! j) < sub_population ((xs @ [x]) ! length xs)"
        by (auto simp: nth_append less_Suc_eq)
      with True r pop show ?thesis
        by (intro exI [of _ "merge_sub (Some r) x"] exI [of _ "length xs"])
           (simp add: merge_sub_def)
    next
      case False
      with lc have le: "sub_population x \<le> sub_population (xs ! i)" by simp
      have "\<forall>j < length (xs @ [x]). sub_population ((xs @ [x]) ! j) \<le> sub_population ((xs @ [x]) ! i)"
        using mx le i by (auto simp: nth_append less_Suc_eq)
      moreover have "\<forall>j < i. sub_population ((xs @ [x]) ! j) < sub_population ((xs @ [x]) ! i)"
        using fst i by (auto simp: nth_append)
      ultimately show ?thesis
        using False r pop i ll lc
        by (intro exI [of _ "merge_sub (Some r) x"] exI [of _ i])
           (simp add: merge_sub_def nth_append)
    qed
  qed
qed

lemma geo_sub_entry_eof: "geo_sub_entry e st cnty [] = None"
  by (simp add: geo_sub_entry_def str_rstrip_def geo_data_types_def)

lemma map_filter_append: "List.map_filter f (xs @ ys) = List.map_filter f xs @ List.map_filter f ys"
  by (simp add: List.map_filter_def)

lemma load_geocodes_lookup:
  assumes load: "load_geocodes_data e self w = (None, w')"
    and content: "files e (geocodes_path self) = Some content"
  shows "geo_lookup w' st cnty =
     foldl (\<lambda>ro x. Some (merge_sub ro x)) (geo_lookup w st cnty) (sub_entries e content st cnty)"
proof (cases "content = []")
  case True
  with load content show ?thesis
    by (simp add: load_geocodes_data_def sub_entries_def read_loop.simps [of _ "[]"]
        split: if_splits)
next
  case False
  then have ne: "fst (readline content) \<noteq> []" by (simp add: readline_empty)
  from load content have "rows_loop (geocodes_row e) (file_lines (snd (readline content)) @ [[]]) 1 w = (None, w')"
    by (simp add: load_geocodes_data_def read_loop_rows [OF ne] split: if_splits)
  from rows_loop_geo_lookup [OF this, of st cnty] show ?thesis
    by (simp add: sub_entries_def file_lines_readline [OF False] map_filter_append
        geo_sub_entry_eof)
qed


section \<open>One row of the statistics file\<close>

lemma counties_row_cases:
  fixes e self line n w
  defines "d \<equiv> str_split CHR '','' (str_rstrip line)"
  obtains
    (short) "length d \<noteq> num_fixed_types + length (stat_names self)"
      "counties_row e self line n w = (None, print [Incomplete_data n, Skipping_line line] w)"
  | (unchanged) res where "length d = num_fixed_types + length (stat_names self)"
      "counties_row e self line n w = (res, w)"
  | (new) st where "length d = num_fixed_types + length (stat_names self)"
      "us_state_abbrev e (d ! 2) = Some st" "covid_lookup w st (d ! 1) = None"
      "counties_row e self line n w =
         (fst (stats_loop e d 0 (stat_names self) [(''fips'', VStr (d ! 3))]),
          w\<lparr>covid_dict := AList.update st (AList.update (d ! 1)
              (snd (stats_loop e d 0 (stat_names self) [(''fips'', VStr (d ! 3))]))
              (case map_of (covid_dict w) st of None \<Rightarrow> [] | Some cs \<Rightarrow> cs)) (covid_dict w)\<rparr>)"
  | (existing) st r0 where "length d = num_fixed_types + length (stat_names self)"
      "us_state_abbrev e (d ! 2) = Some st" "covid_lookup w st (d ! 1) = Some r0"
      "counties_row e self line n w =
         (fst (stats_loop e d 0 (stat_names self) (AList.update ''fips'' (VStr (d ! 3)) r0)),
          (print [Already_loaded (d ! 1) st, Replacing_with (d ! 0)] w)
          \<lparr>covid_dict := AList.update st (AList.update (d ! 1)
              (snd (stats_loop e d 0 (stat_names self) (AList.update ''fips'' (VStr (d ! 3)) r0)))
              (case map_of (covid_dict w) st of None \<Rightarrow> [] | Some cs \<Rightarrow> cs)) (covid_dict w)\<rparr>)"
proof (cases "length d = num_fixed_types + length (stat_names self)")
  case False
  then show ?thesis
    using short by (simp add: counties_row_def d_def)
next
  case len: True
  show ?thesis
  proof (cases "row_date e self d")
    case (Inl err)
    with len have "counties_row e self line n w = (Some err, w)"
      by (simp add: counties_row_def d_def [symmetric])
    with len show ?thesis by (rule unchanged)
  next
    case (Inr current_date)
    show ?thesis
    proof (cases "target_date self \<noteq> None \<and> current_date \<noteq> target_date self")
      case True
      with len Inr have "counties_row e self line n w = (None, w)"
        by (simp add: counties_row_def d_def [symmetric])
      with len show ?thesis by (rule unchanged)
    next
      case keep: False
      show ?thesis
      proof (cases "us_state_abbrev e (d ! 2)")
        case None
        with len Inr keep have "counties_row e self line n w = (Some (KeyError (d ! 2)), w)"
          by (simp add: counties_row_def d_def [symmetric])
        with len show ?thesis by (rule unchanged)
      next
        case (Some st)
        show ?thesis
        proof (cases "covid_lookup w st (d ! 1)")
          case None
          then have m: "map_of (case map_of (covid_dict w) st of None \<Rightarrow> [] | Some cs \<Rightarrow> cs) (d ! 1) = None"
            by (simp add: map_of_counties covid_lookup_def)
          show ?thesis
            using len Some None
            by (rule new)
               (use len Inr keep Some m in \<open>auto simp: counties_row_def d_def [symmetric] Let_def split: prod.splits\<close>)
        next
          case (Some r0)
          then have m: "map_of (case map_of (covid_dict w) st of None \<Rightarrow> [] | Some cs \<Rightarrow> cs) (d ! 1) = Some r0"
            by (simp add: map_of_counties covid_lookup_def)
          show ?thesis
            using len \<open>us_state_abbrev e (d ! 2) = Some st\<close> Some
            by (rule existing)
               (use len Inr keep \<open>us_state_abbrev e (d ! 2) = Some st\<close> m in
                 \<open>auto simp: counties_row_def d_def [symmetric] Let_def print_def split: prod.splits\<close>)
        qed
      qed
    qed
  qed
qed

lemma counties_row_geo: "geo_dict (snd (counties_row e self line n w)) = geo_dict w"
  by (rule counties_row_cases [where e = e and self = self and line = line and n = n and w = w]) (simp_all add: print_def)

lemma counties_row_kept: "tables_kept w (snd (counties_row e self line n w))"
proof -
  have "covid_lookup w st cnty \<noteq> None \<Longrightarrow> covid_lookup (snd (counties_row e self line n w)) st cnty \<noteq> None"
    for st cnty
    by (rule counties_row_cases [where e = e and self = self and line = line and n = n and w = w]) (simp_all add: covid_lookup_store)
  then show ?thesis
    by (simp add: tables_kept_def geo_lookup_def counties_row_geo)
qed

lemma stats_loop_other:
  "k \<notin> set names \<Longrightarrow> map_of (snd (stats_loop e d i names r)) k = map_of r k"
  by (induction names arbitrary: i r) (auto simp: Let_def update_conv' split: option.splits)

lemma stats_loop_ok:
  "\<forall>j < length names. field_value e (d ! (i + j + num_fixed_types)) \<noteq> None \<Longrightarrow>
   fst (stats_loop e d i names r) = None"
proof (induction names arbitrary: i r)
  case Nil
  then show ?case by simp
next
  case (Cons stat rest)
  from Cons.prems have head: "field_value e (d ! (i + num_fixed_types)) \<noteq> None"
    by fastforce
  from Cons.prems have tail: "\<forall>j < length rest. field_value e (d ! (i + 1 + j + num_fixed_types)) \<noteq> None"
    by fastforce
  from head Cons.IH [OF tail] show ?case
    by (auto simp: Let_def field_value_def split: option.splits if_splits)
qed

lemma stats_loop_value:
  "\<forall>j < length names. field_value e (d ! (i + j + num_fixed_types)) \<noteq> None \<Longrightarrow>
   j < length names \<Longrightarrow>
   \<forall>j' < length names. j < j' \<longrightarrow> names ! j' \<noteq> names ! j \<Longrightarrow>
   map_of (snd (stats_loop e d i names r)) (names ! j)
     = map_option VInt (field_value e (d ! (i + j + num_fixed_types)))"
proof (induction names arbitrary: i j r)
  case Nil
  then show ?case by simp
next
  case (Cons stat rest)
  from Cons.prems(1) have head: "field_value e (d ! (i + num_fixed_types)) \<noteq> None"
    by fastforce
  from Cons.prems(1) have tail: "\<forall>j < length rest. field_value e (d ! (i + 1 + j + num_fixed_types)) \<noteq> None"
    by fastforce
  show ?case
  proof (cases j)
    case 0
    with Cons.prems(3) have "\<forall>j' < length rest. rest ! j' \<noteq> stat" by fastforce
    then have notin: "stat \<notin> set rest" by (auto simp: in_set_conv_nth)
    from head obtain v where v: "field_value e (d ! (i + num_fixed_types)) = Some v" by blast
    with 0 notin show ?thesis
      by (auto simp: Let_def field_value_def stats_loop_other update_conv' split: if_splits)
  next
    case (Suc j0)
    with Cons.prems have j0: "j0 < length rest"
      and later: "\<forall>j' < length rest. j0 < j' \<longrightarrow> rest ! j' \<noteq> rest ! j0"
      by fastforce+
    from head obtain v where v: "field_value e (d ! (i + num_fixed_types)) = Some v" by blast
    have "map_of (snd (stats_loop e d (i + 1) rest r')) (rest ! j0)
        = map_option VInt (field_value e (d ! (i + 1 + j0 + num_fixed_types)))" for r'
      by (rule Cons.IH [OF tail j0 later])
    with Suc v show ?thesis
      by (auto simp: Let_def field_value_def split: if_splits)
  qed
qed

lemma covid_unique_store:
  assumes "covid_unique w"
  shows "covid_unique (w1\<lparr>covid_dict := AList.update st (AList.update cnty r
        (case map_of (covid_dict w) st of None \<Rightarrow> [] | Some cs \<Rightarrow> cs)) (covid_dict w)\<rparr>)"
  using assms
  by (auto simp: covid_unique_def distinct_update update_conv' split: option.splits if_splits)

lemma covid_unique_print [simp]: "covid_unique (print msgs w) = covid_unique w"
  by (simp add: covid_unique_def print_def)

lemma counties_row_unique: "covid_unique w \<Longrightarrow> covid_unique (snd (counties_row e self line n w))"
  by (rule counties_row_cases [where e = e and self = self and line = line and n = n and w = w])
     (simp_all add: covid_unique_store)

lemma load_counties_data_unique:
  assumes "covid_unique w"
  shows "covid_unique (snd (load_counties_data e self w))"
proof -
  have "covid_unique w \<longrightarrow> covid_unique (snd (read_loop (counties_row e self') line f n w))"
    for self' line f n
    by (rule read_loop_rel [where R = "\<lambda>s s'. covid_unique s \<longrightarrow> covid_unique s'"])
       (simp_all add: counties_row_unique)
  with assms have "read_loop (counties_row e self') line f n w = (r, w') \<Longrightarrow> covid_unique w'"
    for self' line f n r w'
    by (metis snd_conv)
  with assms show ?thesis
    by (auto simp: load_counties_data_def Let_def split: option.splits sum.splits prod.splits)
qed


section \<open>The constructor keeps what the tables hold\<close>

lemma tables_kept_refl: "tables_kept w w"
  by (simp add: tables_kept_def)

lemma tables_kept_trans: "tables_kept a b \<Longrightarrow> tables_kept b c \<Longrightarrow> tables_kept a c"
  by (simp add: tables_kept_def)

lemma load_counties_data_kept: "tables_kept w (snd (load_counties_data e self w))"
proof -
  have "tables_kept w (snd (read_loop (counties_row e self') line f n w))" for self' line f n
    by (rule read_loop_rel [where R = tables_kept, OF counties_row_kept tables_kept_refl
          tables_kept_trans])
  then have "read_loop (counties_row e self') line f n w = (r, w') \<Longrightarrow> tables_kept w w'"
    for self' line f n r w'
    by (metis snd_conv)
  then show ?thesis
    by (auto simp: load_counties_data_def Let_def tables_kept_refl split: option.splits sum.splits prod.splits)
qed

lemma load_geocodes_data_kept: "tables_kept w (snd (load_geocodes_data e self w))"
proof -
  have "tables_kept w (snd (read_loop (geocodes_row e) line f n w))" for line f n
    by (rule read_loop_rel [where R = tables_kept, OF geocodes_row_kept tables_kept_refl
          tables_kept_trans])
  then show ?thesis
    by (auto simp: load_geocodes_data_def tables_kept_refl split: option.splits)
qed

lemma CovidData_init_kept: "tables_kept w (snd (CovidData_init e cp gp td w))"
proof -
  define self where "self = \<lparr>counties_path = cp, geocodes_path = gp, target_date = td, stat_names = []\<rparr>"
  show ?thesis
  proof (cases "load_counties_data e self w")
    case (Pair r w1)
    with load_counties_data_kept [of w e self] have k1: "tables_kept w w1" by simp
    show ?thesis
    proof (cases r)
      case (Inl err)
      with Pair k1 show ?thesis by (simp add: CovidData_init_def self_def [symmetric])
    next
      case (Inr self')
      have "tables_kept w1 (snd (load_geocodes_data e self' w1))"
        by (rule load_geocodes_data_kept)
      with k1 have "tables_kept w (snd (load_geocodes_data e self' w1))"
        by (rule tables_kept_trans)
      with Pair Inr show ?thesis
        by (cases "load_geocodes_data e self' w1")
           (auto simp: CovidData_init_def self_def [symmetric] split: option.splits)
    qed
  qed
qed

lemma compute_stats_instance:
  "stat_names a = stat_names b \<Longrightarrow> compute_stats e a rq stat w = compute_stats e b rq stat w"
  by (simp add: compute_stats_def)


section \<open>The errors of compute_stats\<close>

lemma county_step_empty: "county_step e rq stat origin new_state [] res w = (Inr res, w)"
  by (simp add: county_step_def)

lemma county_step_error:
  "county_step e rq stat origin new_state new_county res w = (Inl err, w') \<Longrightarrow> \<not> lookup_failure err"
  by (auto simp: county_step_def Let_def split: if_splits option.splits val.splits)

lemma county_loop_error:
  "county_loop e rq stat origin new_state cs res w = (Inl err, w') \<Longrightarrow> \<not> lookup_failure err"
proof (induction cs arbitrary: res w)
  case Nil
  then show ?case by simp
next
  case (Cons c cs)
  then show ?case
    by (auto split: prod.splits sum.splits dest: county_step_error)
qed

lemma state_loop_error:
  "state_loop e rq stat origin sts res w = (Inl err, w') \<Longrightarrow> \<not> lookup_failure err"
proof (induction sts arbitrary: res w)
  case Nil
  then show ?case by simp
next
  case (Cons s sts)
  then show ?case
    by (auto split: prod.splits sum.splits option.splits dest: county_loop_error)
qed

lemma compute_stats_unknown_stat:
  "stat \<notin> set (stat_names self) \<Longrightarrow>
   compute_stats e self rq stat w = (Inl (ValueError (Statistic_not_found stat)), w)"
  by (simp add: compute_stats_def)

lemma compute_stats_unknown_state:
  "stat \<in> set (stat_names self) \<Longrightarrow> map_of (geo_dict w) (state rq) = None \<Longrightarrow>
   fst (compute_stats e self rq stat w) = Inl (ValueError (State_not_found (state rq)))"
  by (simp add: compute_stats_def Let_def print_def)

lemma compute_stats_unknown_county:
  "stat \<in> set (stat_names self) \<Longrightarrow> map_of (geo_dict w) (state rq) = Some cs \<Longrightarrow>
   map_of cs (county rq) = None \<Longrightarrow>
   fst (compute_stats e self rq stat w) = Inl (ValueError (County_not_found (county rq) (state rq)))"
  by (simp add: compute_stats_def Let_def print_def)

lemma compute_stats_known:
  assumes "stat \<in> set (stat_names self)" and "geo_lookup w (state rq) (county rq) = Some g"
    and "fst (compute_stats e self rq stat w) = Inl err"
  shows "\<not> lookup_failure err"
proof -
  from assms(2) obtain cs where cs: "map_of (geo_dict w) (state rq) = Some cs"
    "map_of cs (county rq) = Some g"
    by (auto simp: geo_lookup_def split: option.splits)
  with assms(1,3) show ?thesis
    by (auto simp: compute_stats_def Let_def print_def split: prod.splits sum.splits
        dest: state_loop_error)
qed

lemma county_step_state_absent:
  assumes "new_county \<noteq> []" and "geo_lookup w new_state new_county = Some g"
    and "haversine e origin (lat g, lon g) = Some d" and "float_le d (distance rq)"
    and "map_of (covid_dict w) new_state = None"
  shows "county_step e rq stat origin new_state new_county res w = (Inl (KeyError new_state), w)"
  using assms by (auto simp: county_step_def geo_lookup_def split: option.splits)

lemma county_step_county_absent:
  assumes "map_of (covid_dict w) new_state = Some ccs" and "map_of ccs new_county = None"
    and "geo_lookup w new_state new_county = Some g"
    and "haversine e origin (lat g, lon g) \<noteq> None"
  shows "county_step e rq stat origin new_state new_county res w = (Inr res, w)"
  using assms by (auto simp: county_step_def geo_lookup_def split: option.splits)


section \<open>The request file\<close>

lemma requests_loop_rows:
  "requests_loop e line f requests
   = requests_rows e (takeWhile (\<lambda>l. l \<noteq> []) (line # map str_rstrip (file_lines f))) requests"
proof (induction f arbitrary: line requests rule: length_induct)
  case (1 f)
  show ?case
  proof (cases "line = []")
    case True
    then show ?thesis by (simp add: requests_loop.simps [of e "[]"])
  next
    case line: False
    show ?thesis
    proof (cases "f = []")
      case True
      with line show ?thesis
        by (simp add: requests_loop.simps [of e line] requests_loop.simps [of e "[]"]
            str_rstrip_def split: sum.splits)
    next
      case False
      then have ne: "fst (readline f) \<noteq> []" by (simp add: readline_empty)
      have len: "length (fst (readline g)) + length (snd (readline g)) = length g" for g
        by (induction g) (auto split: prod.splits)
      from ne len [of f] have shorter: "length (snd (readline f)) < length f"
        by (cases "fst (readline f)") auto
      have IH: "requests_loop e (str_rstrip (fst (readline f))) (snd (readline f)) rs
          = requests_rows e (takeWhile (\<lambda>l. l \<noteq> [])
              (str_rstrip (fst (readline f)) # map str_rstrip (file_lines (snd (readline f))))) rs"
        for rs
        using "1.IH" shorter by blast
      show ?thesis
        using line
        by (simp add: requests_loop.simps [of e line f] requests_loop.simps [of e "[]"] IH
            file_lines_readline [OF False] split: sum.splits)
    qed
  qed
qed

lemma get_requests_rows:
  "files e input_path = Some content \<Longrightarrow>
   get_requests e input_path = requests_rows e (request_rows content) []"
proof (cases "content = []")
  case True
  assume "files e input_path = Some content"
  with True show ?thesis
    by (simp add: get_requests_def request_rows_def requests_loop.simps [of e "[]"] str_rstrip_def)
next
  case False
  assume c: "files e input_path = Some content"
  show ?thesis
  proof (cases "snd (readline content) = []")
    case True
    with c False show ?thesis
      by (simp add: get_requests_def request_rows_def requests_loop.simps [of e "[]"]
          str_rstrip_def file_lines_readline [OF False])
  next
    case f: False
    with c False show ?thesis
      by (simp add: get_requests_def request_rows_def Let_def requests_loop_rows
          file_lines_readline [OF False] file_lines_readline [OF f])
  qed
qed

lemma requests_rows_reject:
  "row \<in> set rows \<Longrightarrow> request_row e row = Inl err0 \<Longrightarrow>
   \<exists>err. requests_rows e rows requests = Inl (RuntimeError (Invalid_input err))"
  by (induction rows arbitrary: requests) (auto split: sum.splits)

lemma requests_rows_accept:
  "map (request_row e) rows = map Inr rqs \<Longrightarrow> requests_rows e rows requests = Inr (requests @ rqs)"
  by (induction rows arbitrary: requests rqs) auto

lemma float_le_not_gt: "float_le x y \<Longrightarrow> \<not> float_gt x y"
  by (cases x; cases y) (auto simp: float_le_def float_gt_def)

lemma request_row_too_large:
  "str_split CHR '','' row = [c, s, d] \<Longrightarrow> py_float e d = Some r \<Longrightarrow> float_gt r (Fin 1000) \<Longrightarrow>
   request_row e row = Inl Distance_too_large"
  by (simp add: request_row_def)

lemma request_row_accepted:
  "str_split CHR '','' row = [c, s, d] \<Longrightarrow> py_float e d = Some r \<Longrightarrow> float_le r (Fin 1000) \<Longrightarrow>
   request_row e row = Inr \<lparr>state = s, county = c, distance = r\<rparr>"
  by (simp add: request_row_def float_le_not_gt)


section \<open>The claims\<close>

subsection \<open>C1: geocode rows with an empty county name\<close>

text \<open>
  Claim C1, as amended. A sub-entry of the geocode file whose county field is the empty
  string is not skipped by \<open>load_geocodes_data\<close>. Its row changes no record of a county
  with a non-empty name, whatever the state; where the row raises no exception it leaves
  a record under the empty county name in its state; and the scan of \<open>compute_stats\<close>
  passes over an entry with the empty county name, leaving the result and the state as
  they are.
\<close>

theorem empty_county_row:
  assumes "length geo_data_types \<le> length (str_split CHR '','' (str_rstrip line))"
    and "str_split CHR '','' (str_rstrip line) ! 5 = []"
  shows "(\<forall>st cnty. cnty \<noteq> [] \<longrightarrow>
            geo_lookup (snd (geocodes_row e line n w)) st cnty = geo_lookup w st cnty)
     \<and> (fst (geocodes_row e line n w) = None \<longrightarrow>
            geo_lookup (snd (geocodes_row e line n w)) (str_split CHR '','' (str_rstrip line) ! 2) []
              \<noteq> None)
     \<and> county_step e rq stat origin new_state [] res w2 = (Inr res, w2)"
proof (intro conjI allI impI)
  fix st cnty :: string
  assume "cnty \<noteq> []"
  with assms(2) show "geo_lookup (snd (geocodes_row e line n w)) st cnty = geo_lookup w st cnty"
    by (intro geocodes_row_other) simp
next
  assume "fst (geocodes_row e line n w) = None"
  then have "geocodes_row e line n w = (None, snd (geocodes_row e line n w))"
    by (cases "geocodes_row e line n w") simp
  from geocodes_row_stores [OF this assms(1)] assms(2)
  show "geo_lookup (snd (geocodes_row e line n w)) (str_split CHR '','' (str_rstrip line) ! 2) [] \<noteq> None"
    by simp
next
  show "county_step e rq stat origin new_state [] res w2 = (Inr res, w2)"
    by (rule county_step_empty)
qed

text \<open>
  The last row of the example file has an empty county: it leaves the record of Alameda
  as it is and a record under \<open>('CA', '')\<close>.
\<close>

theorem empty_county_row_witness:
  "length geo_data_types \<le> length (str_split CHR '','' (str_rstrip nameless_row))
   \<and> str_split CHR '','' (str_rstrip nameless_row) ! 5 = []
   \<and> geo_lookup (snd (geocodes_row (example_env example_files) nameless_row 3 loaded_world))
        ''CA'' ''Alameda''
       = geo_lookup loaded_world ''CA'' ''Alameda''
   \<and> geo_lookup (snd (geocodes_row (example_env example_files) nameless_row 3 loaded_world))
        ''CA'' [] \<noteq> None"
proof -
  have len: "length geo_data_types \<le> length (str_split CHR '','' (str_rstrip nameless_row))"
    by code_simp
  have empty: "str_split CHR '','' (str_rstrip nameless_row) ! 5 = []"
    by code_simp
  have st: "str_split CHR '','' (str_rstrip nameless_row) ! 2 = ''CA''"
    by code_simp
  have ok: "fst (geocodes_row (example_env example_files) nameless_row 3 loaded_world) = None"
    by code_simp
  from empty_county_row [OF len empty, of "example_env example_files" 3 loaded_world] ok st len empty
  show ?thesis by simp
qed

text \<open>
  Claim C1 as stated fails: after \<open>load_geocodes_data\<close> on the example file, \<open>geo_dict\<close>
  has a record under the empty county name, made from the row with no county.
\<close>

theorem empty_county_record_exists:
  "geo_lookup (snd (load_geocodes_data (example_env example_files) example_self world0)) ''CA'' []
     = Some \<lparr>lat = Fin 39, lon = Fin (- 121), population = 5, largest_city = 5\<rparr>"
  by code_simp


subsection \<open>C2: a county of GeoTable whose state is missing from StatisticsTable\<close>

text \<open>
  Claim C2 at an input where the code does not do what it says. The statistics file has
  rows for Nevada only, the geocode file has the county Alameda of California, and the
  request is for Alameda within 1000 miles. Alameda is within the radius of itself and
  California is no key of \<open>covid_dict\<close>, so \<open>self.covid_dict[new_state]\<close> raises
  \<open>KeyError\<close>: the request has no result.
\<close>

theorem absent_state_raises_KeyError:
  "fst (main (example_env [(''counties.csv'', nevada_counties), (''geocodes.csv'', example_geocodes),
       (''requests.csv'', example_requests)])
     ''requests.csv'' ''counties.csv'' ''geocodes.csv'' None ''cases'' world0) = Inl (KeyError ''CA'')"
  by code_simp


subsection \<open>C3: population and representative point of a county\<close>

text \<open>
  Claim C3. Let \<open>load_geocodes_data\<close> return without an exception on a geocode file,
  from tables with no record for the county \<open>cnty\<close> of the state \<open>st\<close>, and let the file
  have at least one sub-entry for that county. Then the county has a record; its
  population is the sum of the populations of its sub-entries; and its latitude and
  longitude are those of the first sub-entry whose population is the largest: the
  sub-entry \<open>i\<close>, no sub-entry has a larger population and every sub-entry before it has a
  smaller one.
\<close>

theorem geo_record_sum_and_largest:
  assumes load: "load_geocodes_data e self w = (None, w')"
    and content: "files e (geocodes_path self) = Some content"
    and fresh: "geo_lookup w st cnty = None"
    and subs: "sub_entries e content st cnty \<noteq> []"
  shows "\<exists>r i. geo_lookup w' st cnty = Some r
     \<and> population r = sum_list (map sub_population (sub_entries e content st cnty))
     \<and> i < length (sub_entries e content st cnty)
     \<and> lat r = sub_lat (sub_entries e content st cnty ! i)
     \<and> lon r = sub_lon (sub_entries e content st cnty ! i)
     \<and> (\<forall>j < length (sub_entries e content st cnty).
           sub_population (sub_entries e content st cnty ! j)
             \<le> sub_population (sub_entries e content st cnty ! i))
     \<and> (\<forall>j < i. sub_population (sub_entries e content st cnty ! j)
             < sub_population (sub_entries e content st cnty ! i))"
proof -
  have "geo_lookup w' st cnty =
      foldl (\<lambda>ro x. Some (merge_sub ro x)) None (sub_entries e content st cnty)"
    using load_geocodes_lookup [OF load content, of st cnty] fresh by simp
  with foldl_merge_first_largest [OF subs] show ?thesis by auto
qed

text \<open>
  Two sub-entries of populations 100 and 300: the record has population 400 and the
  latitude and longitude of the second.
\<close>

theorem geo_record_sum_and_largest_witness:
  "sub_entries (example_env example_files) example_geocodes ''CA'' ''Alameda''
     = [\<lparr>sub_lat = Fin 37, sub_lon = Fin (- 122), sub_population = 100\<rparr>,
        \<lparr>sub_lat = Fin 38, sub_lon = Fin (- 122), sub_population = 300\<rparr>]
   \<and> (\<exists>r. geo_lookup (snd (load_geocodes_data (example_env example_files) example_self world0))
              ''CA'' ''Alameda'' = Some r
          \<and> population r = 400 \<and> lat r = Fin 38 \<and> lon r = Fin (- 122))"
proof -
  let ?e = "example_env example_files"
  let ?subs = "sub_entries ?e example_geocodes ''CA'' ''Alameda''"
  have subs: "?subs = [\<lparr>sub_lat = Fin 37, sub_lon = Fin (- 122), sub_population = 100\<rparr>,
        \<lparr>sub_lat = Fin 38, sub_lon = Fin (- 122), sub_population = 300\<rparr>]"
    by code_simp
  have "fst (load_geocodes_data ?e example_self world0) = None"
    by code_simp
  then have load: "load_geocodes_data ?e example_self world0
      = (None, snd (load_geocodes_data ?e example_self world0))"
    by (cases "load_geocodes_data ?e example_self world0") simp
  have content: "files ?e (geocodes_path example_self) = Some example_geocodes"
    by code_simp
  have fresh: "geo_lookup world0 ''CA'' ''Alameda'' = None"
    by code_simp
  have ne: "?subs \<noteq> []"
    by (simp add: subs)
  from geo_record_sum_and_largest [OF load content fresh ne]
  obtain r i where r: "geo_lookup (snd (load_geocodes_data ?e example_self world0)) ''CA'' ''Alameda'' = Some r"
    and pop: "population r = sum_list (map sub_population ?subs)"
    and i: "i < length ?subs"
    and ll: "lat r = sub_lat (?subs ! i)" "lon r = sub_lon (?subs ! i)"
    and mx: "\<forall>j < length ?subs. sub_population (?subs ! j) \<le> sub_population (?subs ! i)"
    by blast
  have "1 < length ?subs"
    by (simp add: subs)
  with mx have "sub_population (?subs ! 1) \<le> sub_population (?subs ! i)"
    by blast
  with i have "i = 1"
    by (cases i) (simp_all add: subs)
  with r pop ll subs show ?thesis by simp
qed


subsection \<open>C4: the tables belong to the class\<close>

text \<open>
  Claim C4. \<open>covid_dict\<close> and \<open>geo_dict\<close> are attributes of the class, so constructing a
  \<open>CovidData\<close> starts from the tables as they are: every county with a record in
  \<open>covid_dict\<close> or \<open>geo_dict\<close> before the construction has one after it, whatever the
  files and whether or not the construction raises. An instance holds no table of its
  own: \<open>compute_stats\<close> takes from the instance its statistic names only, so two
  instances with the same names get the same answer from the same tables.
\<close>

theorem tables_are_class_level:
  "(\<forall>st cnty. covid_lookup w st cnty \<noteq> None \<longrightarrow>
       covid_lookup (snd (CovidData_init e cp gp td w)) st cnty \<noteq> None)
   \<and> (\<forall>st cnty. geo_lookup w st cnty \<noteq> None \<longrightarrow>
       geo_lookup (snd (CovidData_init e cp gp td w)) st cnty \<noteq> None)
   \<and> (stat_names a = stat_names b \<longrightarrow>
       compute_stats e a rq stat w = compute_stats e b rq stat w)"
  using CovidData_init_kept [of w e cp gp td] compute_stats_instance [of a b e rq stat w]
  by (simp add: tables_kept_def)

text \<open>
  A second construction from the same files finds the record of Alameda that the first
  one made, and adds the populations of the sub-entries to it once more.
\<close>

theorem tables_are_class_level_witness:
  "geo_lookup loaded_world ''CA'' ''Alameda''
     = Some \<lparr>lat = Fin 38, lon = Fin (- 122), population = 400, largest_city = 300\<rparr>
   \<and> geo_lookup (snd (CovidData_init (example_env example_files) ''counties.csv'' ''geocodes.csv''
        None loaded_world)) ''CA'' ''Alameda'' \<noteq> None
   \<and> geo_lookup (snd (CovidData_init (example_env example_files) ''counties.csv'' ''geocodes.csv''
        None loaded_world)) ''CA'' ''Alameda''
     = Some \<lparr>lat = Fin 38, lon = Fin (- 122), population = 800, largest_city = 300\<rparr>"
proof -
  have first: "geo_lookup loaded_world ''CA'' ''Alameda''
     = Some \<lparr>lat = Fin 38, lon = Fin (- 122), population = 400, largest_city = 300\<rparr>"
    by code_simp
  have second: "geo_lookup (snd (CovidData_init (example_env example_files) ''counties.csv'' ''geocodes.csv''
        None loaded_world)) ''CA'' ''Alameda''
     = Some \<lparr>lat = Fin 38, lon = Fin (- 122), population = 800, largest_city = 300\<rparr>"
    by code_simp
  from tables_are_class_level [of loaded_world "example_env example_files" "''counties.csv''"
      "''geocodes.csv''" None example_self example_self]
  have "geo_lookup loaded_world ''CA'' ''Alameda'' \<noteq> None \<longrightarrow>
      geo_lookup (snd (CovidData_init (example_env example_files) ''counties.csv'' ''geocodes.csv''
        None loaded_world)) ''CA'' ''Alameda'' \<noteq> None"
    by blast
  with first second show ?thesis by simp
qed


subsection \<open>C5: a later row for a county already loaded\<close>

text \<open>
  Claim C5. Let a qualifying row of the statistics file be for a county that has a
  record already. Then its row raises no exception; it prints the two lines of the
  warning; afterwards the county has a record whose \<open>'fips'\<close> is the row's (when no
  statistic is named \<open>'fips'\<close>) and whose value for each statistic is the row's, read
  from the last column of that name; and the loop goes on with the next line of the
  file. \<open>load_counties_data\<close> keeps \<open>covid_dict\<close> with one entry for each state and one
  for each county of a state.
\<close>

theorem later_row_overwrites:
  assumes q: "qualifying e self line"
    and d: "d = str_split CHR '','' (str_rstrip line)"
    and st: "us_state_abbrev e (d ! 2) = Some st"
    and occupied: "covid_lookup w st (d ! 1) = Some r0"
  shows "fst (counties_row e self line n w) = None
    \<and> stdout (snd (counties_row e self line n w))
        = stdout w @ [Already_loaded (d ! 1) st, Replacing_with (d ! 0)]
    \<and> (\<exists>r. covid_lookup (snd (counties_row e self line n w)) st (d ! 1) = Some r
         \<and> (''fips'' \<notin> set (stat_names self) \<longrightarrow> map_of r ''fips'' = Some (VStr (d ! 3)))
         \<and> (\<forall>i < length (stat_names self).
               (\<forall>j < length (stat_names self). i < j \<longrightarrow> stat_names self ! j \<noteq> stat_names self ! i) \<longrightarrow>
               map_of r (stat_names self ! i)
                 = map_option VInt (field_value e (d ! (i + num_fixed_types)))))
    \<and> (prev \<noteq> [] \<and> fst (readline f) = line \<longrightarrow>
         read_loop (counties_row e self) prev f n w
           = read_loop (counties_row e self) line (snd (readline f)) (n + 1)
               (snd (counties_row e self line n w)))
    \<and> (covid_unique w \<longrightarrow> covid_unique (snd (load_counties_data e self w)))"
proof -
  from q d have len: "length d = num_fixed_types + length (stat_names self)"
    and vals: "\<forall>i < length (stat_names self). field_value e (d ! (0 + i + num_fixed_types)) \<noteq> None"
    and date: "\<exists>cd. row_date e self d = Inr cd \<and> (target_date self = None \<or> cd = target_date self)"
    by (auto simp: qualifying_def Let_def split: sum.splits)
  define r where "r = snd (stats_loop e d 0 (stat_names self) (AList.update ''fips'' (VStr (d ! 3)) r0))"
  have row: "counties_row e self line n w =
      (None, (print [Already_loaded (d ! 1) st, Replacing_with (d ! 0)] w)
        \<lparr>covid_dict := AList.update st (AList.update (d ! 1) r
           (case map_of (covid_dict w) st of None \<Rightarrow> [] | Some cs \<Rightarrow> cs)) (covid_dict w)\<rparr>)"
  proof -
    from occupied have m: "map_of (case map_of (covid_dict w) st of None \<Rightarrow> [] | Some cs \<Rightarrow> cs) (d ! 1) = Some r0"
      by (simp add: map_of_counties covid_lookup_def)
    from stats_loop_ok [OF vals] have ok: "fst (stats_loop e d 0 (stat_names self) r') = None" for r'
      by simp
    from date obtain cd where cd: "row_date e self d = Inr cd"
      and keep: "target_date self = None \<or> cd = target_date self" by blast
    from len cd keep st m ok [of "AList.update ''fips'' (VStr (d ! 3)) r0"] show ?thesis
      by (auto simp: counties_row_def d [symmetric] Let_def print_def r_def split: prod.splits)
  qed
  have look: "covid_lookup (snd (counties_row e self line n w)) st (d ! 1) = Some r"
    by (simp add: row covid_lookup_store)
  have fips: "''fips'' \<notin> set (stat_names self) \<Longrightarrow> map_of r ''fips'' = Some (VStr (d ! 3))"
    by (simp add: r_def stats_loop_other update_conv')
  have stats: "map_of r (stat_names self ! i) = map_option VInt (field_value e (d ! (i + num_fixed_types)))"
    if "i < length (stat_names self)"
      and "\<forall>j < length (stat_names self). i < j \<longrightarrow> stat_names self ! j \<noteq> stat_names self ! i"
    for i
    using stats_loop_value [OF vals that, of "AList.update ''fips'' (VStr (d ! 3)) r0"]
    by (simp add: r_def)
  have cont: "read_loop (counties_row e self) prev f n w
           = read_loop (counties_row e self) line (snd (readline f)) (n + 1)
               (snd (counties_row e self line n w))"
    if "prev \<noteq> []" "fst (readline f) = line"
    using read_loop_continues [of prev "counties_row e self" f n w] that row by simp
  show ?thesis
    using look fips stats cont load_counties_data_unique [of w e self]
    by (simp add: row print_def)
qed

text \<open>
  A row of a later date for Alameda, which is loaded with 10 cases and 1 death: the
  record then has 20 cases and, for the empty field, 0 deaths.
\<close>

theorem later_row_overwrites_witness:
  "qualifying (example_env example_files) example_self later_row
   \<and> covid_lookup loaded_world ''CA'' ''Alameda''
       = Some [(''fips'', VStr ''06001''), (''cases'', VInt 10), (''deaths'', VInt 1)]
   \<and> fst (counties_row (example_env example_files) example_self later_row 3 loaded_world) = None
   \<and> (\<exists>r. covid_lookup (snd (counties_row (example_env example_files) example_self later_row 3
                loaded_world)) ''CA'' ''Alameda'' = Some r
          \<and> map_of r ''fips'' = Some (VStr ''06001'')
          \<and> map_of r ''cases'' = Some (VInt 20)
          \<and> map_of r ''deaths'' = Some (VInt 0))"
proof -
  let ?e = "example_env example_files"
  have q: "qualifying ?e example_self later_row"
    by code_simp
  have d: "[''2020-04-02'', ''Alameda'', ''California'', ''06001'', ''20'', '''']
      = str_split CHR '','' (str_rstrip later_row)"
    by code_simp
  have st: "us_state_abbrev ?e ([''2020-04-02'', ''Alameda'', ''California'', ''06001'', ''20'', ''''] ! 2)
      = Some ''CA''"
    by code_simp
  have occupied: "covid_lookup loaded_world ''CA''
      ([''2020-04-02'', ''Alameda'', ''California'', ''06001'', ''20'', ''''] ! 1)
      = Some [(''fips'', VStr ''06001''), (''cases'', VInt 10), (''deaths'', VInt 1)]"
    by code_simp
  have v0: "field_value ?e ''20'' = Some 20" by code_simp
  have v1: "field_value ?e '''' = Some 0" by code_simp
  from later_row_overwrites [OF q d st occupied, of 3]
  obtain r where none: "fst (counties_row ?e example_self later_row 3 loaded_world) = None"
    and r: "covid_lookup (snd (counties_row ?e example_self later_row 3 loaded_world)) ''CA''
        ([''2020-04-02'', ''Alameda'', ''California'', ''06001'', ''20'', ''''] ! 1) = Some r"
    and fips: "''fips'' \<notin> set (stat_names example_self) \<longrightarrow>
        map_of r ''fips'' = Some (VStr ([''2020-04-02'', ''Alameda'', ''California'', ''06001'', ''20'', ''''] ! 3))"
    and stats: "\<forall>i < length (stat_names example_self).
               (\<forall>j < length (stat_names example_self). i < j \<longrightarrow>
                   stat_names example_self ! j \<noteq> stat_names example_self ! i) \<longrightarrow>
               map_of r (stat_names example_self ! i)
                 = map_option VInt (field_value ?e
                     ([''2020-04-02'', ''Alameda'', ''California'', ''06001'', ''20'', ''''] ! (i + num_fixed_types)))"
    by blast
  have names: "stat_names example_self = [''cases'', ''deaths'']"
    by (simp add: example_self_def)
  from fips have f: "map_of r ''fips'' = Some (VStr ''06001'')"
    by (simp add: names)
  from stats [rule_format, of 0] have c: "map_of r ''cases'' = Some (VInt 20)"
    by (simp add: names num_fixed_types_def counties_data_types_def v0 less_Suc_eq)
  from stats [rule_format, of 1] have dd: "map_of r ''deaths'' = Some (VInt 0)"
    by (simp add: names num_fixed_types_def counties_data_types_def v1)
  from q occupied none r f c dd show ?thesis by simp
qed


subsection \<open>C6: the header of the statistics file\<close>

text \<open>
  Claim C6 at an input where the code does not do what it says. The header
  \<open>date,county,state\<close> has three columns, which match the first three expected names.
  \<open>validate_header\<close> then reads \<open>data_types[3]\<close> and raises \<open>IndexError\<close>: no
  \<open>ValueError\<close> names a column and the name expected for it. The tables and the output
  are as they were.
\<close>

theorem short_header_raises_IndexError:
  "load_counties_data (example_env [(''counties.csv'', short_header_counties)]) example_self world0
     = (Inl IndexError, world0)"
  by code_simp


subsection \<open>C7: the errors of compute_stats about its request\<close>

text \<open>
  Claim C7, as amended. \<open>compute_stats\<close> raises a \<open>ValueError\<close>, which is no
  \<open>LookupError\<close>: for the statistic when its name is not in \<open>stat_names\<close>, before
  anything is printed or any distance computed; otherwise for the state when it is no
  key of \<open>geo_dict\<close>; otherwise for the county when it is no key of its state. It raises
  one of these three errors exactly when the statistic is unknown or the county of the
  request has no record in \<open>geo_dict\<close>.
\<close>

theorem compute_stats_lookup_errors:
  "(stat \<notin> set (stat_names self) \<longrightarrow>
      compute_stats e self rq stat w = (Inl (ValueError (Statistic_not_found stat)), w))
   \<and> (stat \<in> set (stat_names self) \<and> map_of (geo_dict w) (state rq) = None \<longrightarrow>
      fst (compute_stats e self rq stat w) = Inl (ValueError (State_not_found (state rq))))
   \<and> (stat \<in> set (stat_names self) \<and> map_of (geo_dict w) (state rq) \<noteq> None
        \<and> geo_lookup w (state rq) (county rq) = None \<longrightarrow>
      fst (compute_stats e self rq stat w)
        = Inl (ValueError (County_not_found (county rq) (state rq))))
   \<and> ((\<exists>err. fst (compute_stats e self rq stat w) = Inl err \<and> lookup_failure err)
        \<longleftrightarrow> stat \<notin> set (stat_names self) \<or> geo_lookup w (state rq) (county rq) = None)
   \<and> (\<forall>err. lookup_failure err \<longrightarrow> \<not> is_LookupError err)"
proof (intro conjI impI allI)
  show "compute_stats e self rq stat w = (Inl (ValueError (Statistic_not_found stat)), w)"
    if "stat \<notin> set (stat_names self)"
    using that by (rule compute_stats_unknown_stat)
  show "fst (compute_stats e self rq stat w) = Inl (ValueError (State_not_found (state rq)))"
    if "stat \<in> set (stat_names self) \<and> map_of (geo_dict w) (state rq) = None"
    using that by (simp add: compute_stats_unknown_state)
  show "fst (compute_stats e self rq stat w) = Inl (ValueError (County_not_found (county rq) (state rq)))"
    if "stat \<in> set (stat_names self) \<and> map_of (geo_dict w) (state rq) \<noteq> None
        \<and> geo_lookup w (state rq) (county rq) = None"
    using that by (auto simp: geo_lookup_def compute_stats_unknown_county)
  show "(\<exists>err. fst (compute_stats e self rq stat w) = Inl err \<and> lookup_failure err)
        \<longleftrightarrow> stat \<notin> set (stat_names self) \<or> geo_lookup w (state rq) (county rq) = None"
  proof
    assume "\<exists>err. fst (compute_stats e self rq stat w) = Inl err \<and> lookup_failure err"
    then show "stat \<notin> set (stat_names self) \<or> geo_lookup w (state rq) (county rq) = None"
      using compute_stats_known [of stat self w rq _ e] by (cases "geo_lookup w (state rq) (county rq)") auto
  next
    assume a: "stat \<notin> set (stat_names self) \<or> geo_lookup w (state rq) (county rq) = None"
    show "\<exists>err. fst (compute_stats e self rq stat w) = Inl err \<and> lookup_failure err"
    proof (cases "stat \<in> set (stat_names self)")
      case False
      then show ?thesis by (simp add: compute_stats_unknown_stat)
    next
      case True
      with a have none: "geo_lookup w (state rq) (county rq) = None" by simp
      show ?thesis
      proof (cases "map_of (geo_dict w) (state rq)")
        case None
        with True show ?thesis by (simp add: compute_stats_unknown_state)
      next
        case (Some cs)
        with none have "map_of cs (county rq) = None" by (simp add: geo_lookup_def)
        with True Some show ?thesis by (simp add: compute_stats_unknown_county)
      qed
    qed
  qed
  show "\<not> is_LookupError err" if "lookup_failure err" for err
    using that by (cases err rule: lookup_failure.cases) simp_all
qed

text \<open>An unknown statistic, and an unknown county of a known state.\<close>

theorem compute_stats_lookup_errors_witness:
  "''recovered'' \<notin> set (stat_names example_self)
   \<and> compute_stats (example_env example_files) example_self
        \<lparr>state = ''CA'', county = ''Alameda'', distance = Fin 100\<rparr> ''recovered'' loaded_world
       = (Inl (ValueError (Statistic_not_found ''recovered'')), loaded_world)
   \<and> geo_lookup loaded_world ''CA'' ''Marin'' = None
   \<and> fst (compute_stats (example_env example_files) example_self
        \<lparr>state = ''CA'', county = ''Marin'', distance = Fin 100\<rparr> ''cases'' loaded_world)
       = Inl (ValueError (County_not_found ''Marin'' ''CA''))"
proof -
  have a: "''recovered'' \<notin> set (stat_names example_self)"
    by (simp add: example_self_def)
  have b: "''cases'' \<in> set (stat_names example_self)"
    by (simp add: example_self_def)
  have c: "map_of (geo_dict loaded_world) ''CA'' \<noteq> None"
    by code_simp
  have d: "geo_lookup loaded_world ''CA'' ''Marin'' = None"
    by code_simp
  from compute_stats_lookup_errors [of "''recovered''" example_self "example_env example_files"
      "\<lparr>state = ''CA'', county = ''Alameda'', distance = Fin 100\<rparr>" loaded_world] a
  have one: "compute_stats (example_env example_files) example_self
        \<lparr>state = ''CA'', county = ''Alameda'', distance = Fin 100\<rparr> ''recovered'' loaded_world
       = (Inl (ValueError (Statistic_not_found ''recovered'')), loaded_world)"
    by blast
  from compute_stats_lookup_errors [of "''cases''" example_self "example_env example_files"
      "\<lparr>state = ''CA'', county = ''Marin'', distance = Fin 100\<rparr>" loaded_world] b c d
  have two: "fst (compute_stats (example_env example_files) example_self
        \<lparr>state = ''CA'', county = ''Marin'', distance = Fin 100\<rparr> ''cases'' loaded_world)
       = Inl (ValueError (County_not_found ''Marin'' ''CA''))"
    by simp
  from a one d two show ?thesis by simp
qed

text \<open>
  Claim C7 as stated fails: for an unknown state \<open>compute_stats\<close> raises \<open>ValueError\<close>,
  which is not of the class \<open>LookupError\<close>.
\<close>

theorem unknown_state_raises_ValueError:
  "fst (compute_stats (example_env example_files) example_self
      \<lparr>state = ''ZZ'', county = ''Alameda'', distance = Fin 100\<rparr> ''cases'' loaded_world)
     = Inl (ValueError (State_not_found ''ZZ''))
   \<and> \<not> is_LookupError (ValueError (State_not_found ''ZZ''))"
  by code_simp


subsection \<open>C8: the geocode path\<close>

text \<open>
  Claim C8 at an input where the code does not do what it says. The statistics file
  exists and the geocode file does not. \<open>load_geocodes_data\<close> checks that
  \<open>self.counties_path\<close> exists, which it does, and opens \<open>self.geocodes_path\<close>
  unchecked: the exception is the \<open>FileNotFoundError\<close> of \<open>open\<close>, not the
  \<open>RuntimeError\<close> of the check.
\<close>

theorem missing_geocodes_not_validated:
  "load_geocodes_data (example_env [(''counties.csv'', example_counties)]) example_self world0
     = (Some (FileNotFoundError ''geocodes.csv''), world0)"
  by code_simp


subsection \<open>C9: the radius of a request\<close>

text \<open>
  Claim C9. Let the request file exist. If a row that \<open>get_requests\<close> reads has three
  fields and a radius greater than 1000, the row is rejected with \<open>ValueError\<close>,
  \<open>get_requests\<close> raises a \<open>RuntimeError\<close> for an invalid row, and so does \<open>main\<close>,
  with the tables and the output as they were: nothing was loaded and no distance
  computed. A row with three fields and a radius of at most 1000 gives a request; and
  when every row read gives a request, \<open>get_requests\<close> returns the requests of the rows
  in their order.
\<close>

theorem radius_checked_first:
  assumes content: "files e input_path = Some content"
  shows "(\<forall>row c s d r. row \<in> set (request_rows content) \<and> str_split CHR '','' row = [c, s, d]
            \<and> py_float e d = Some r \<and> float_gt r (Fin 1000) \<longrightarrow>
          request_row e row = Inl Distance_too_large
          \<and> (\<exists>err. get_requests e input_path = Inl (RuntimeError (Invalid_input err))
                \<and> main e input_path counties_data geocodes td statistic w
                    = (Inl (RuntimeError (Invalid_input err)), w)))
    \<and> (\<forall>row c s d r. str_split CHR '','' row = [c, s, d] \<and> py_float e d = Some r
            \<and> float_le r (Fin 1000) \<longrightarrow>
          request_row e row = Inr \<lparr>state = s, county = c, distance = r\<rparr>)
    \<and> (\<forall>rqs. map (request_row e) (request_rows content) = map Inr rqs \<longrightarrow>
          get_requests e input_path = Inr rqs)"
proof (intro conjI allI impI)
  fix row c s d r
  assume a: "row \<in> set (request_rows content) \<and> str_split CHR '','' row = [c, s, d]
            \<and> py_float e d = Some r \<and> float_gt r (Fin 1000)"
  then show large: "request_row e row = Inl Distance_too_large"
    by (simp add: request_row_too_large)
  from a requests_rows_reject [OF _ large, of "request_rows content" "[]"]
  obtain err where "requests_rows e (request_rows content) [] = Inl (RuntimeError (Invalid_input err))"
    by blast
  then have "get_requests e input_path = Inl (RuntimeError (Invalid_input err))"
    by (simp add: get_requests_rows [OF content])
  then show "\<exists>err. get_requests e input_path = Inl (RuntimeError (Invalid_input err))
      \<and> main e input_path counties_data geocodes td statistic w
          = (Inl (RuntimeError (Invalid_input err)), w)"
    by (simp add: main_def)
next
  fix row c s d r
  assume "str_split CHR '','' row = [c, s, d] \<and> py_float e d = Some r \<and> float_le r (Fin 1000)"
  then show "request_row e row = Inr \<lparr>state = s, county = c, distance = r\<rparr>"
    by (simp add: request_row_accepted)
next
  fix rqs
  assume "map (request_row e) (request_rows content) = map Inr rqs"
  then show "get_requests e input_path = Inr rqs"
    by (simp add: get_requests_rows [OF content] requests_rows_accept)
qed

text \<open>A radius of exactly 1000 is accepted; a radius of 1001 stops \<open>main\<close>.\<close>

theorem radius_checked_first_witness:
  "files (example_env [(''requests.csv'', large_requests)]) ''requests.csv'' = Some large_requests
   \<and> request_rows large_requests = [''Alameda,CA,1000'', ''Washoe,NV,1001'']
   \<and> request_row (example_env [(''requests.csv'', large_requests)]) ''Alameda,CA,1000''
       = Inr \<lparr>state = ''CA'', county = ''Alameda'', distance = Fin 1000\<rparr>
   \<and> request_row (example_env [(''requests.csv'', large_requests)]) ''Washoe,NV,1001''
       = Inl Distance_too_large
   \<and> main (example_env [(''requests.csv'', large_requests)]) ''requests.csv'' ''counties.csv''
        ''geocodes.csv'' None ''cases'' world0
       = (Inl (RuntimeError (Invalid_input Distance_too_large)), world0)"
proof -
  let ?e = "example_env [(''requests.csv'', large_requests)]"
  have content: "files ?e ''requests.csv'' = Some large_requests"
    by code_simp
  have rows: "request_rows large_requests = [''Alameda,CA,1000'', ''Washoe,NV,1001'']"
    by code_simp
  have s1: "str_split CHR '','' ''Alameda,CA,1000'' = [''Alameda'', ''CA'', ''1000'']"
    by code_simp
  have s2: "str_split CHR '','' ''Washoe,NV,1001'' = [''Washoe'', ''NV'', ''1001'']"
    by code_simp
  have f1: "py_float ?e ''1000'' = Some (Fin 1000)"
    by code_simp
  have f2: "py_float ?e ''1001'' = Some (Fin 1001)"
    by code_simp
  have le: "float_le (Fin 1000) (Fin 1000)"
    by (simp add: float_le_def)
  have gt: "float_gt (Fin 1001) (Fin 1000)"
    by (simp add: float_gt_def)
  have direct: "get_requests ?e ''requests.csv'' = Inl (RuntimeError (Invalid_input Distance_too_large))"
    by code_simp
  note rc = radius_checked_first [OF content, of "''counties.csv''" "''geocodes.csv''" None "''cases''" world0]
  have accepted: "request_row ?e ''Alameda,CA,1000''
       = Inr \<lparr>state = ''CA'', county = ''Alameda'', distance = Fin 1000\<rparr>"
    using rc [THEN conjunct2, THEN conjunct1, rule_format,
        of "''Alameda,CA,1000''" "''Alameda''" "''CA''" "''1000''" "Fin 1000"] s1 f1 le
    by simp
  have rejected: "request_row ?e ''Washoe,NV,1001'' = Inl Distance_too_large
      \<and> (\<exists>err. get_requests ?e ''requests.csv'' = Inl (RuntimeError (Invalid_input err))
          \<and> main ?e ''requests.csv'' ''counties.csv'' ''geocodes.csv'' None ''cases'' world0
              = (Inl (RuntimeError (Invalid_input err)), world0))"
    using rc [THEN conjunct1, rule_format,
        of "''Washoe,NV,1001''" "''Washoe''" "''NV''" "''1001''" "Fin 1001"] rows s2 f2 gt
    by simp
  with direct have "main ?e ''requests.csv'' ''counties.csv'' ''geocodes.csv'' None ''cases'' world0
       = (Inl (RuntimeError (Invalid_input Distance_too_large)), world0)"
    by auto
  with content rows accepted rejected show ?thesis by simp
qed

end
